theory Spec2Isabelle
  imports Main "HOL-Library.AList"
begin

section \<open>Go library functions on strings and slash-separated paths\<close>

text \<open>
  The repository is written in Go.  Strings are byte strings (\<open>string\<close>), slices are
  lists.  The functions of this section are the ones the repository calls from the Go
  standard library (\<open>strings\<close>, \<open>path\<close>, \<open>path/filepath\<close> on a Unix system); they are
  modelled after their documented behaviour, element by element of a path.
\<close>

definition strings_HasPrefix :: "string \<Rightarrow> string \<Rightarrow> bool" where
  \<comment> \<open>\<open>strings.HasPrefix(s, prefix)\<close>\<close>
  "strings_HasPrefix s pre = (length s \<ge> length pre \<and> take (length pre) s = pre)"

fun split_slash :: "string \<Rightarrow> string list" where
  \<comment> \<open>the elements of a path between its slashes (\<open>strings.Split(s, "/")\<close>)\<close>
  "split_slash [] = [[]]"
| "split_slash (c # cs) =
     (if c = CHR ''/'' then [] # split_slash cs
      else (case split_slash cs of [] \<Rightarrow> [[c]] | x # xs \<Rightarrow> (c # x) # xs))"

fun join_slash :: "string list \<Rightarrow> string" where
  \<comment> \<open>\<open>strings.Join(elems, "/")\<close>\<close>
  "join_slash [] = []"
| "join_slash [x] = x"
| "join_slash (x # y # ys) = x @ CHR ''/'' # join_slash (y # ys)"

definition clean_step :: "bool \<Rightarrow> string list \<Rightarrow> string \<Rightarrow> string list" where
  \<comment> \<open>one path element of \<open>path.Clean\<close>: empty and \<open>.\<close> elements are dropped, \<open>..\<close> removes
      the element before it, is dropped at the root, and is kept at the front of a
      path that is not rooted\<close>
  "clean_step rooted out e =
     (if e = [] \<or> e = ''.'' then out
      else if e = ''..'' then
        (if out \<noteq> [] \<and> last out \<noteq> ''..'' then butlast out
         else if \<not> rooted then out @ [''..'']
         else out)
      else out @ [e])"

definition path_Clean :: "string \<Rightarrow> string" where
  \<comment> \<open>\<open>path.Clean\<close> (and \<open>filepath.Clean\<close> on Unix)\<close>
  "path_Clean p =
     (if p = [] then ''.''
      else
        let rooted = (hd p = CHR ''/'');
            out = foldl (clean_step rooted) [] (split_slash p)
        in if rooted then CHR ''/'' # join_slash out
           else if out = [] then ''.''
           else join_slash out)"

definition path_Join :: "string list \<Rightarrow> string" where
  \<comment> \<open>\<open>path.Join\<close>, \<open>filepath.Join\<close>: leading empty elements are ignored, the rest is
      joined with slashes and cleaned; the result is empty when every element is\<close>
  "path_Join elem =
     (case dropWhile (\<lambda>e. e = []) elem of
        [] \<Rightarrow> []
      | es \<Rightarrow> path_Clean (join_slash es))"

definition filepath_IsAbs :: "string \<Rightarrow> bool" where
  \<comment> \<open>\<open>filepath.IsAbs\<close> on Unix\<close>
  "filepath_IsAbs p = strings_HasPrefix p ''/''"

definition filepath_Base :: "string \<Rightarrow> string" where
  \<comment> \<open>\<open>filepath.Base\<close>: the last element of the path, trailing slashes removed first;
      \<open>.\<close> for the empty path and \<open>/\<close> for a path of slashes only\<close>
  "filepath_Base p =
     (if p = [] then ''.''
      else
        let q = rev (dropWhile (\<lambda>c. c = CHR ''/'') (rev p));
            l = rev (takeWhile (\<lambda>c. c \<noteq> CHR ''/'') (rev q))
        in if l = [] then ''/'' else l)"

definition filepath_Dir :: "string \<Rightarrow> string" where
  \<comment> \<open>\<open>filepath.Dir\<close>: the path up to its last slash, cleaned\<close>
  "filepath_Dir p = path_Clean (rev (dropWhile (\<lambda>c. c \<noteq> CHR ''/'') (rev p)))"

definition path_elements :: "string \<Rightarrow> string list" where
  \<comment> \<open>the elements of a path, without the empty ones\<close>
  "path_elements p = filter (\<lambda>e. e \<noteq> []) (split_slash p)"

section \<open>The operating system\<close>

text \<open>
  The state of the machine a program runs on: the working directory (\<open>None\<close> when
  \<open>os.Getwd\<close> fails), the directories, the regular files with their contents, the
  symbolic links with their targets, and the lines logged so far.  Directories, files
  and links are keyed by their absolute path, its elements separated by one slash
  (\<open>os_path\<close>); a relative path is resolved against the working directory, element by
  element.
\<close>

datatype directive =
    ModuleD string                        \<comment> \<open>\<open>module path\<close>\<close>
  | RequireD string string                \<comment> \<open>\<open>require path version\<close>\<close>
  | ReplaceD string string string string  \<comment> \<open>\<open>replace old [oldvers] => new [newvers]\<close>\<close>

datatype chunk =
    Bytes string                  \<comment> \<open>bytes of any other kind\<close>
  | Formatted "directive list"    \<comment> \<open>the text of a \<open>go.mod\<close> with these statements, in this
                                      order, as \<open>modfile.Format\<close> prints it\<close>

type_synonym file_data = "chunk list"

datatype log_line =
    Blank
  | Preserving string                        \<comment> \<open>\<open>Preserving bb generated source directory at %s due to error\<close>\<close>
  | ConflictingDependencies string           \<comment> \<open>\<open>Conflicting module dependencies on %s:\<close>\<close>
  | Uses string string                       \<comment> \<open>\<open>  %s uses %s\<close>\<close>
  | Suggestion string string string          \<comment> \<open>\<open>Suggestion to resolve: add `replace %s => %s` to %s\<close>\<close>

record os_state =
  Getwd :: "string option"
  dirs :: "string list"
  files :: "(string \<times> file_data) list"
  links :: "(string \<times> string) list"
  stderr :: "log_line list"

definition filepath_Abs :: "os_state \<Rightarrow> string \<Rightarrow> string option" where
  \<comment> \<open>\<open>filepath.Abs\<close>; \<open>None\<close> is its error\<close>
  "filepath_Abs s p =
     (if filepath_IsAbs p then Some (path_Clean p)
      else (case Getwd s of None \<Rightarrow> None | Some wd \<Rightarrow> Some (path_Join [wd, p])))"

definition key :: "string list \<Rightarrow> string" where
  \<comment> \<open>the absolute path with these elements\<close>
  "key es = CHR ''/'' # join_slash es"

definition os_path :: "os_state \<Rightarrow> string \<Rightarrow> string option" where
  \<comment> \<open>the key of a path; \<open>None\<close> when the working directory is needed and not known\<close>
  "os_path s p =
     (case filepath_Abs s p of
        None \<Rightarrow> None
      | Some q \<Rightarrow> Some (key (path_elements q)))"

definition os_Readlink :: "os_state \<Rightarrow> string \<Rightarrow> string option" where
  \<comment> \<open>\<open>os.Readlink\<close>: the target of a symbolic link; \<open>None\<close> is its error\<close>
  "os_Readlink s p =
     (case os_path s p of None \<Rightarrow> None | Some q \<Rightarrow> map_of (links s) q)"

definition lstat_symlink :: "os_state \<Rightarrow> string \<Rightarrow> bool" where
  \<comment> \<open>\<open>os.Lstat(p)\<close> succeeds and its mode has \<open>os.ModeSymlink\<close>\<close>
  "lstat_symlink s p =
     (case os_path s p of None \<Rightarrow> False | Some q \<Rightarrow> map_of (links s) q \<noteq> None)"

section \<open>The dispatch registry (package bbmain)\<close>

datatype func =
    Noop                 \<comment> \<open>\<open>bbmain.Noop\<close>\<close>
  | ListCmds             \<comment> \<open>\<open>bbmain.ListCmds\<close>\<close>
  | StubDefault          \<comment> \<open>the closure \<open>m\<close> of the stub's \<open>init\<close>\<close>
  | CommandFunc string   \<comment> \<open>a function of a rewritten command, by its name\<close>

datatype bbCmd = BBCmd (cmd_init: func) (cmd_main: func)

record registry =
  bbCmds :: "string \<Rightarrow> bbCmd option"
  defaultCmd :: "bbCmd option"

definition Register :: "string \<Rightarrow> func \<Rightarrow> func \<Rightarrow> registry \<Rightarrow> registry" where
  \<comment> \<open>Modelled from the spec: \<open>bbmain.Register\<close> (register.go is not among the sources).
      The spec: the stub exposes a fixed registry with the operation
      \<open>Register(name, initChain, entry)\<close>, a dispatch table keyed by the command's name.\<close>
  "Register name i e reg = reg\<lparr>bbCmds := (bbCmds reg)(name \<mapsto> BBCmd i e)\<rparr>"

definition RegisterDefault :: "func \<Rightarrow> func \<Rightarrow> registry \<Rightarrow> registry" where
  \<comment> \<open>Modelled from the spec: \<open>bbmain.RegisterDefault(initChain, entry)\<close>, which sets the
      default handler.\<close>
  "RegisterDefault i e reg = reg\<lparr>defaultCmd := Some (BBCmd i e)\<rparr>"

definition lookup_cmd :: "registry \<Rightarrow> string \<Rightarrow> bbCmd option" where
  \<comment> \<open>Modelled from the spec: the lookup of \<open>bbmain.Run\<close>.  The spec: \<open>Run\<close> looks up by
      name; misses fall through to the default handler.\<close>
  "lookup_cmd reg name =
     (case bbCmds reg name of Some c \<Rightarrow> Some c | None \<Rightarrow> defaultCmd reg)"

section \<open>The dispatch stub (src/pkg/bb/bbmain/cmd/main.go)\<close>

datatype exit =
    Exit0                                \<comment> \<open>the command returned\<close>
  | InvalidBusyboxCommand "string list"  \<comment> \<open>\<open>log.Fatalf("Invalid busybox command: %q", os.Args)\<close>\<close>
  | RunError string                      \<comment> \<open>\<open>log.Fatalf("%s: %v", name, err)\<close>\<close>
  | AbsFatal string                      \<comment> \<open>\<open>log.Fatalf("could not determine absolute path for %v: %v", ...)\<close>\<close>
  | IndexPanic                           \<comment> \<open>an index or a slice bound out of range\<close>

datatype event =
    Called func "string list"   \<comment> \<open>a function of a command was called while \<open>os.Args\<close> was this\<close>
  | Listed "string set"         \<comment> \<open>the diagnostic listing of these command names was printed\<close>

type_synonym outcome = "event list \<times> exit"

definition call :: "registry \<Rightarrow> func \<Rightarrow> string list \<Rightarrow> event list" where
  \<comment> \<open>what a call of a function other than \<open>m\<close> leaves in the trace.  \<open>Noop\<close> does nothing.
      Modelled from the spec: \<open>bbmain.ListCmds\<close> (register.go is not among the sources),
      the diagnostic listing of the registered commands.\<close>
  "call reg f args =
     (if f = Noop then []
      else if f = ListCmds then [Listed (dom (bbCmds reg))]
      else [Called f args])"

function run :: "registry \<Rightarrow> string list \<Rightarrow> outcome"
  and Run :: "registry \<Rightarrow> string \<Rightarrow> string list \<Rightarrow> outcome"
  and stub_default :: "registry \<Rightarrow> string list \<Rightarrow> outcome"
where
  "run reg args =
     (case args of
        [] \<Rightarrow> ([], IndexPanic)
      | a # _ \<Rightarrow> Run reg (filepath_Base a) args)"
| "Run reg name args =
     (case lookup_cmd reg name of
        None \<Rightarrow> ([], RunError name)
      | Some c \<Rightarrow>
          if cmd_init c = StubDefault then stub_default reg args
          else if cmd_main c = StubDefault then
            (case stub_default reg args of (tr, e) \<Rightarrow> (call reg (cmd_init c) args @ tr, e))
          else (call reg (cmd_init c) args @ call reg (cmd_main c) args, Exit0))"
| "stub_default reg args =
     (if length args = 1 then ([], InvalidBusyboxCommand args)
      else (case args of
              [] \<Rightarrow> ([], IndexPanic)
            | _ # rest \<Rightarrow> run reg rest))"
  by pat_completeness auto
termination
  by (relation "measure (\<lambda>x. case x of
         Inl (reg, args) \<Rightarrow> 3 * length args + 2
       | Inr (Inl (reg, name, args)) \<Rightarrow> 3 * length args + 1
       | Inr (Inr (reg, args)) \<Rightarrow> 3 * length args)") auto

declare run.simps [simp del] Run.simps [simp del] stub_default.simps [simp del]

definition AbsSymlink :: "os_state \<Rightarrow> string \<Rightarrow> string \<Rightarrow> exit + string" where
  "AbsSymlink s originalFile target =
     (case (if \<not> filepath_IsAbs originalFile
            then (case filepath_Abs s originalFile of
                    None \<Rightarrow> Inl (AbsFatal originalFile)
                  | Some a \<Rightarrow> Inr a)
            else Inr originalFile) of
        Inl e \<Rightarrow> Inl e
      | Inr orig \<Rightarrow>
          if \<not> filepath_IsAbs target then Inr (path_Join [filepath_Dir orig, target])
          else Inr target)"

definition IsTargetSymlink :: "os_state \<Rightarrow> string \<Rightarrow> string \<Rightarrow> exit + bool" where
  "IsTargetSymlink s originalFile target =
     (case AbsSymlink s originalFile target of
        Inl e \<Rightarrow> Inl e
      | Inr a \<Rightarrow> Inr (lstat_symlink s a))"

partial_function (option) ResolveUntilLastSymlink ::
  "os_state \<Rightarrow> string \<Rightarrow> (exit + string) option"
where
  "ResolveUntilLastSymlink s p =
     (case os_Readlink s p of
        None \<Rightarrow> Some (Inr p)
      | Some target \<Rightarrow>
          (case IsTargetSymlink s p target of
             Inl e \<Rightarrow> Some (Inl e)
           | Inr is_link \<Rightarrow>
               if is_link then
                 (case AbsSymlink s p target of
                    Inl e \<Rightarrow> Some (Inl e)
                  | Inr q \<Rightarrow> ResolveUntilLastSymlink s q)
               else Some (Inr p)))"

definition init :: "registry \<times> string list \<Rightarrow> registry \<times> string list" where
  \<comment> \<open>the stub's \<open>init\<close>, on the registry and \<open>os.Args\<close>\<close>
  "init = (\<lambda>(reg, args).
     let args' = (if length args > 2 \<and> strings_HasPrefix (args ! 1) ''#!''
                  then drop 2 args else args)
     in (RegisterDefault Noop StubDefault (Register ''bbdiagnose'' Noop ListCmds reg), args'))"

definition main :: "os_state \<Rightarrow> registry \<Rightarrow> string list \<Rightarrow> outcome option" where
  \<comment> \<open>the stub's \<open>main\<close>; \<open>None\<close> when the resolution of the symbolic links never ends\<close>
  "main s reg args =
     (case args of
        [] \<Rightarrow> Some ([], IndexPanic)
      | a # rest \<Rightarrow>
          (case ResolveUntilLastSymlink s a of
             None \<Rightarrow> None
           | Some (Inl e) \<Rightarrow> Some ([], e)
           | Some (Inr p) \<Rightarrow> Some (run reg (p # rest))))"

definition busybox :: "os_state \<Rightarrow> registry \<Rightarrow> string list \<Rightarrow> outcome option" where
  \<comment> \<open>the generated binary started with the arguments \<open>args\<close>: the Go runtime runs the
      \<open>init\<close> functions of the command packages (they leave the registry \<open>reg\<close>), then the
      stub's \<open>init\<close>, then \<open>main\<close>\<close>
  "busybox s reg args = (case init (reg, args) of (reg', args') \<Rightarrow> main s reg' args')"




section \<open>Files and directories\<close>

text \<open>
  The build works on directories and regular files; it is modelled on a machine without
  symbolic links.  The operations fail for the reasons the state shows (a missing
  parent, a file where a directory is needed); \<open>errno\<close> says which.
\<close>

datatype errno = ENOENT | ENOTDIR | EEXIST | EISDIR

definition ancestors :: "string \<Rightarrow> string list" where
  \<comment> \<open>the keys of a path and of the directories above it, the root first\<close>
  "ancestors q =
     map (\<lambda>n. key (take n (path_elements q))) [0 ..< Suc (length (path_elements q))]"

definition parent :: "string \<Rightarrow> string" where
  \<comment> \<open>the key of the directory a key is in\<close>
  "parent q = key (butlast (path_elements q))"

definition below_file :: "os_state \<Rightarrow> string \<Rightarrow> bool" where
  \<comment> \<open>one of the directories above the path is a regular file: the system answers
      \<open>ENOTDIR\<close> to every operation on the path\<close>
  "below_file s a = (\<exists>q \<in> set (butlast (ancestors a)). map_of (files s) q \<noteq> None)"

definition os_MkdirAll :: "string \<Rightarrow> os_state \<Rightarrow> errno option \<times> os_state" where
  \<comment> \<open>\<open>os.MkdirAll\<close>: the directory and its missing parents; nothing when it exists\<close>
  "os_MkdirAll p s =
     (case filepath_Abs s p of
        None \<Rightarrow> (Some ENOENT, s)
      | Some a \<Rightarrow>
          if \<exists>q \<in> set (ancestors a). map_of (files s) q \<noteq> None then (Some ENOTDIR, s)
          else (None, s\<lparr>dirs := dirs s @ filter (\<lambda>q. q \<notin> set (dirs s)) (ancestors a)\<rparr>))"

definition ioutil_ReadDir :: "string \<Rightarrow> os_state \<Rightarrow> errno + string list" where
  \<comment> \<open>\<open>ioutil.ReadDir\<close>: the entries of a directory\<close>
  "ioutil_ReadDir p s =
     (case filepath_Abs s p of
        None \<Rightarrow> Inl ENOENT
      | Some a \<Rightarrow>
          let q = key (path_elements a) in
          if below_file s a \<or> map_of (files s) q \<noteq> None then Inl ENOTDIR
          else if q \<notin> set (dirs s) then Inl ENOENT
          else Inr (filter (\<lambda>x. x \<noteq> q \<and> parent x = q) (dirs s @ map fst (files s))))"

definition ioutil_TempDir :: "string \<Rightarrow> os_state \<Rightarrow> (errno + string) \<times> os_state" where
  \<comment> \<open>\<open>ioutil.TempDir("", "bb-")\<close>: a new directory; \<open>name\<close> is the path the library
      picks for it (\<open>os.TempDir()\<close>, then \<open>bb-\<close> and random digits)\<close>
  "ioutil_TempDir name s =
     (case filepath_Abs s name of
        None \<Rightarrow> (Inl ENOENT, s)
      | Some a \<Rightarrow>
          let q = key (path_elements a) in
          if below_file s a then (Inl ENOTDIR, s)
          else if q \<in> set (dirs s) \<or> map_of (files s) q \<noteq> None then (Inl EEXIST, s)
          else if parent q \<notin> set (dirs s) then (Inl ENOENT, s)
          else (Inr name, s\<lparr>dirs := dirs s @ [q]\<rparr>))"

definition ioutil_ReadFile :: "string \<Rightarrow> os_state \<Rightarrow> errno + file_data" where
  "ioutil_ReadFile p s =
     (case filepath_Abs s p of
        None \<Rightarrow> Inl ENOENT
      | Some a \<Rightarrow>
          if below_file s a then Inl ENOTDIR
          else
            (case map_of (files s) (key (path_elements a)) of
               Some d \<Rightarrow> Inr d
             | None \<Rightarrow> if key (path_elements a) \<in> set (dirs s) then Inl EISDIR else Inl ENOENT))"

definition ioutil_WriteFile :: "string \<Rightarrow> file_data \<Rightarrow> os_state \<Rightarrow> errno option \<times> os_state" where
  \<comment> \<open>\<open>ioutil.WriteFile\<close>: creates the file or replaces its contents\<close>
  "ioutil_WriteFile p d s =
     (case filepath_Abs s p of
        None \<Rightarrow> (Some ENOENT, s)
      | Some a \<Rightarrow>
          let q = key (path_elements a) in
          if below_file s a then (Some ENOTDIR, s)
          else if q \<in> set (dirs s) then (Some EISDIR, s)
          else if parent q \<notin> set (dirs s) then (Some ENOENT, s)
          else (None, s\<lparr>files := AList.update q d (files s)\<rparr>))"

definition append_file :: "string \<Rightarrow> file_data \<Rightarrow> os_state \<Rightarrow> errno option \<times> os_state" where
  \<comment> \<open>\<open>os.OpenFile(p, os.O_RDWR|os.O_CREATE|os.O_APPEND, ...)\<close> and \<open>io.Copy\<close> into it\<close>
  "append_file p d s =
     (case filepath_Abs s p of
        None \<Rightarrow> (Some ENOENT, s)
      | Some a \<Rightarrow>
          let q = key (path_elements a) in
          if below_file s a then (Some ENOTDIR, s)
          else if q \<in> set (dirs s) then (Some EISDIR, s)
          else if parent q \<notin> set (dirs s) then (Some ENOENT, s)
          else (None, s\<lparr>files := AList.update q
                  ((case map_of (files s) q of None \<Rightarrow> [] | Some old \<Rightarrow> old) @ d) (files s)\<rparr>))"

definition cp_Copy :: "string \<Rightarrow> string \<Rightarrow> os_state \<Rightarrow> errno option \<times> os_state" where
  \<comment> \<open>\<open>cp.Copy(src, dst)\<close> of github.com/u-root/uio: a directory is created at \<open>dst\<close>,
      a regular file is copied to \<open>dst\<close>\<close>
  "cp_Copy src dst s =
     (case filepath_Abs s src of
        None \<Rightarrow> (Some ENOENT, s)
      | Some a \<Rightarrow>
          let q = key (path_elements a) in
          if below_file s a then (Some ENOTDIR, s)
          else if q \<in> set (dirs s) then os_MkdirAll dst s
          else (case map_of (files s) q of
                  None \<Rightarrow> (Some ENOENT, s)
                | Some d \<Rightarrow> ioutil_WriteFile dst d s))"

definition os_RemoveAll :: "string \<Rightarrow> os_state \<Rightarrow> os_state" where
  \<comment> \<open>\<open>os.RemoveAll\<close>: the path and everything below it\<close>
  "os_RemoveAll p s =
     (case os_path s p of
        None \<Rightarrow> s
      | Some q \<Rightarrow>
          s\<lparr>dirs := filter (\<lambda>x. q \<notin> set (ancestors x)) (dirs s),
            files := filter (\<lambda>(x, d). q \<notin> set (ancestors x)) (files s)\<rparr>)"

definition filepath_Rel :: "string \<Rightarrow> string \<Rightarrow> string option" where
  \<comment> \<open>\<open>filepath.Rel(basepath, targpath)\<close>: the common leading elements are dropped, one
      \<open>..\<close> stands for each element left of the base; \<open>None\<close> is its error\<close>
  "filepath_Rel basepath targpath =
     (let base = path_Clean basepath; targ = path_Clean targpath in
      if targ = base then Some ''.''
      else
        let base' = (if base = ''.'' then [] else base) in
        if strings_HasPrefix base' ''/'' \<noteq> strings_HasPrefix targ ''/'' then None
        else
          let bs = path_elements base'; ts = path_elements targ;
              n = length (takeWhile (\<lambda>(b, t). b = t) (zip bs ts));
              bs' = drop n bs; ts' = drop n ts
          in if bs' \<noteq> [] \<and> ts' \<noteq> [] \<and> hd bs' = ''..'' then None
             else Some (join_slash (replicate (length bs') ''..'' @ ts')))"

section \<open>Packages, modules and manifests\<close>

text \<open>
  The records of \<open>golang.org/x/tools/go/packages\<close> and of the repository's
  \<open>bbinternal\<close>, with the fields the build reads.  \<open>Replace\<close> is the \<open>Path\<close> of the
  module's replacement (\<open>m.Replace.Path\<close>), \<open>None\<close> for \<open>nil\<close>.  \<open>Imports\<close> holds the
  packages a command's package imports, directly or not, each once, in the order in
  which \<open>packages.Visit\<close> leaves them; the package itself comes last.
\<close>

record go_module =
  Path :: string
  Version :: string
  Dir :: string
  GoMod :: string
  Replace :: "string option"

record go_package =
  ID :: string
  PkgPath :: string
  Module :: "go_module option"

record bb_package =
  Name :: string
  Pkg :: go_package
  Imports :: "go_package list"

definition packages_Visit :: "bb_package \<Rightarrow> go_package list" where
  \<comment> \<open>the packages \<open>packages.Visit([]*packages.Package{p.Pkg}, nil, post)\<close> hands to
      \<open>post\<close>, in order\<close>
  "packages_Visit p = Imports p @ [Pkg p]"

datatype error =
    NoOptions              \<comment> \<open>\<open>no options given for busybox build\<close>\<close>
  | EnvInvalid string      \<comment> \<open>the error of \<open>opts.Env.Valid()\<close>\<close>
  | CouldNotCreateDir errno
      \<comment> \<open>\<open>could not create directory for busybox generated source: %w\<close>\<close>
  | CouldNotReadDir errno
      \<comment> \<open>\<open>could not read directory supplied for busybox generated source: %w\<close>\<close>
  | NotEmptyDir
      \<comment> \<open>\<open>directory supplied for busybox generated source is not an empty directory\<close>\<close>
  | NotAbsolute string     \<comment> \<open>\<open>busybox gen src dir %s could not be made absolute: %v\<close>\<close>
  | GenerateNeedsDir       \<comment> \<open>\<open>generate switch requires that generate directory be supplied\<close>\<close>
  | OSError errno          \<comment> \<open>an error of the operating system, returned as it is\<close>
  | FindingPackagesFailed string    \<comment> \<open>\<open>finding packages failed: %v\<close>\<close>
  | NoValidCommands        \<comment> \<open>\<open>no valid commands given\<close>\<close>
  | DuplicateCommand string string string
      \<comment> \<open>\<open>failed to build with bb: found duplicate command %s (%s and %s)\<close>\<close>
  | MixedMode "string list"
      \<comment> \<open>\<open>busybox does not support mixed module/non-module compilation -- commands
          contain main modules %v\<close>, the paths joined by \<open>", "\<close>\<close>
  | RewriteFailed string string     \<comment> \<open>\<open>rewriting command %q failed: %v\<close>\<close>
  | DepsFailed error
      \<comment> \<open>\<open>collecting and putting dependencies in place failed: %v\<close>\<close>
  | WriteMainFailed error           \<comment> \<open>\<open>failed to write main.go: %v\<close>\<close>
  | CreateMainFailed string         \<comment> \<open>\<open>creating bb main.go file failed: %v\<close> and the
                                        other errors of \<open>writeBBMain\<close>'s helpers\<close>
  | ErrGopathBuild string string string    \<comment> \<open>\<open>CmdDir\<close>, \<open>GOPATH\<close>, \<open>Err\<close>\<close>
  | ErrModuleBuild string string           \<comment> \<open>\<open>CmdDir\<close>, \<open>Err\<close>\<close>
  | FailedToCopyGoMod string errno         \<comment> \<open>\<open>failed to copy go.mod for %s: %v\<close>\<close>
  | TwoConflictingVersions string string string
      \<comment> \<open>\<open>two conflicting versions of module %s have been requested; one from %s,
          the other from %s's go.mod\<close>\<close>
  | ConflictingDependenciesFound    \<comment> \<open>\<open>conflicting module dependencies found\<close>\<close>
  | WritingPackageFailed string string     \<comment> \<open>\<open>writing package %s failed: %v\<close>\<close>
  | ParseError string               \<comment> \<open>the error of \<open>modfile.Parse\<close> on this file\<close>
  | NilDereference                  \<comment> \<open>the run-time panic on a field of a \<open>nil\<close> pointer\<close>

record Environ =
  GO111MODULE :: string
  GOPATH :: string

record Opts =
  Env :: Environ
  GenSrcDir :: string
  CommandPaths :: "string list"
  BinaryPath :: string
  AllowMixedMode :: bool
  GenerateOnly :: bool

text \<open>
  The code of the repository the build calls and that is not among the sources
  (\<open>golang.Environ\<close>, \<open>findpkg\<close>, \<open>bbinternal\<close>, the embedded sources of the stub), and
  the name \<open>ioutil.TempDir\<close> picks.  Each is a parameter of the build; an error is the
  text of its message.  Each of these functions works on the machine: it takes its
  state and returns the state it leaves.
\<close>

record externals =
  Valid :: "Environ \<Rightarrow> string option"
  NewPackages :: "Environ \<Rightarrow> string list \<Rightarrow> os_state \<Rightarrow> (string + bb_package list) \<times> os_state"
  TempName :: string
  Rewrite :: "bb_package \<Rightarrow> string \<Rightarrow> string \<Rightarrow> os_state \<Rightarrow> string option \<times> os_state"
  WritePkg :: "go_package \<Rightarrow> string \<Rightarrow> os_state \<Rightarrow> string option \<times> os_state"
  bbRegisterSource :: string
  bbMainSource :: string
  CreateBBMainSource :: "string list \<Rightarrow> string \<Rightarrow> os_state \<Rightarrow> string option \<times> os_state"
  BuildDir :: "Environ \<Rightarrow> string \<Rightarrow> string \<Rightarrow> os_state \<Rightarrow> string option \<times> os_state"

subsection \<open>Go maps\<close>

text \<open>
  A Go map is an association list with distinct keys (\<open>AList.update\<close> stores a value).
  The order in which \<open>range\<close> goes through a map is not specified by the language and
  may differ from one loop to the next: it is a parameter \<open>ord\<close> of the build, which
  permutes the keys of the map for each \<open>range\<close> statement (named by a label).
\<close>

type_synonym range_order = "string \<Rightarrow> string list \<Rightarrow> string list"

definition is_range_order :: "range_order \<Rightarrow> bool" where
  "is_range_order ord =
     (\<forall>site ks. distinct ks \<longrightarrow> distinct (ord site ks) \<and> set (ord site ks) = set ks)"

definition range_map :: "range_order \<Rightarrow> string \<Rightarrow> (string \<times> 'v) list \<Rightarrow> (string \<times> 'v) list" where
  \<comment> \<open>the keys and values of \<open>for k, v := range m\<close>, in the order of the iteration\<close>
  "range_map ord site mp =
     List.map_filter (\<lambda>k. map_option (Pair k) (map_of mp k)) (ord site (map fst mp))"

fun for_each ::
  "('a \<Rightarrow> 'b \<Rightarrow> os_state \<Rightarrow> (error + 'b) \<times> os_state) \<Rightarrow> 'a list \<Rightarrow> 'b \<Rightarrow> os_state
     \<Rightarrow> (error + 'b) \<times> os_state"
where
  \<comment> \<open>a \<open>for\<close> loop over a slice whose body may return an error: \<open>'b\<close> is what the body
      updates\<close>
  "for_each body [] acc s = (Inr acc, s)"
| "for_each body (x # xs) acc s =
     (case body x acc s of
        (Inl e, s') \<Rightarrow> (Inl e, s')
      | (Inr acc', s') \<Rightarrow> for_each body xs acc' s')"

subsection \<open>The manifest editor (golang.org/x/mod/modfile)\<close>

text \<open>
  A \<open>modfile.File\<close> built from the zero value: the module statement, the \<open>require\<close>
  entries (path and version) and the \<open>replace\<close> entries.  A \<open>replace\<close> entry holds the
  old and the new module and the line \<open>Format\<close> prints for it (its \<open>Syntax\<close>):
  \<open>AddReplace\<close> rewrites the line and \<open>New\<close> of an entry it updates and leaves \<open>Old\<close> as
  it is.  An entry that \<open>AddRequire\<close> or \<open>AddReplace\<close> removes (it loses its line and is
  set to the zero value) is dropped here.
\<close>

record Replace_entry =
  Old_Path :: string
  Old_Version :: string
  New_Path :: string
  New_Version :: string
  Syntax :: directive

record modfile_File =
  Module_stmt :: "string option"
  Require :: "(string \<times> string) list"
  Replaces :: "Replace_entry list"

definition empty_File :: modfile_File where
  \<comment> \<open>\<open>var mod modfile.File\<close>\<close>
  "empty_File = \<lparr>Module_stmt = None, Require = [], Replaces = []\<rparr>"

definition AddModuleStmt :: "string \<Rightarrow> modfile_File \<Rightarrow> modfile_File" where
  "AddModuleStmt p f = f\<lparr>Module_stmt := Some p\<rparr>"

fun update_requires :: "string \<Rightarrow> string \<Rightarrow> bool \<Rightarrow> (string \<times> string) list
    \<Rightarrow> (string \<times> string) list \<times> bool" where
  \<comment> \<open>the loop of \<open>AddRequire\<close> over \<open>f.Require\<close>, with its variable \<open>need\<close>\<close>
  "update_requires p v need [] = ([], need)"
| "update_requires p v need (r # rs) =
     (if fst r = p then
        (if need then (case update_requires p v False rs of (rs', n) \<Rightarrow> ((p, v) # rs', n))
         else update_requires p v need rs)
      else (case update_requires p v need rs of (rs', n) \<Rightarrow> (r # rs', n)))"

definition AddRequire :: "string \<Rightarrow> string \<Rightarrow> modfile_File \<Rightarrow> modfile_File" where
  \<comment> \<open>\<open>f.AddRequire(path, vers)\<close>: sets the version of the first entry for \<open>path\<close> and removes
      the others, or adds an entry at the end; its error is always \<open>nil\<close>\<close>
  "AddRequire p v f =
     (case update_requires p v True (Require f) of
        (rs, need) \<Rightarrow> f\<lparr>Require := (if need then rs @ [(p, v)] else rs)\<rparr>)"

definition replace_matches :: "string \<Rightarrow> string \<Rightarrow> Replace_entry \<Rightarrow> bool" where
  \<comment> \<open>\<open>r.Old.Path == oldPath && (oldVers == "" || r.Old.Version == oldVers)\<close>\<close>
  "replace_matches oldPath oldVers r =
     (Old_Path r = oldPath \<and> (oldVers = [] \<or> Old_Version r = oldVers))"

fun update_replaces :: "string \<Rightarrow> string \<Rightarrow> string \<Rightarrow> string \<Rightarrow> bool \<Rightarrow> Replace_entry list
    \<Rightarrow> Replace_entry list \<times> bool" where
  \<comment> \<open>the loop of \<open>AddReplace\<close> over \<open>f.Replace\<close>, with its variable \<open>need\<close>\<close>
  "update_replaces op ov np nv need [] = ([], need)"
| "update_replaces op ov np nv need (r # rs) =
     (if replace_matches op ov r then
        (if need then
           (case update_replaces op ov np nv False rs of
              (rs', n) \<Rightarrow> (r\<lparr>New_Path := np, New_Version := nv, Syntax := ReplaceD op ov np nv\<rparr> # rs', n))
         else update_replaces op ov np nv need rs)
      else (case update_replaces op ov np nv need rs of (rs', n) \<Rightarrow> (r # rs', n)))"

definition AddReplace :: "string \<Rightarrow> string \<Rightarrow> string \<Rightarrow> string \<Rightarrow> modfile_File \<Rightarrow> modfile_File" where
  \<comment> \<open>\<open>f.AddReplace(oldPath, oldVers, newPath, newVers)\<close>: rewrites the first entry that
      replaces \<open>oldPath\<close> (at \<open>oldVers\<close>, or at any version when \<open>oldVers\<close> is empty) and
      removes the others, or adds an entry; its error is always \<open>nil\<close>\<close>
  "AddReplace op ov np nv f =
     (case update_replaces op ov np nv True (Replaces f) of
        (rs, need) \<Rightarrow>
          f\<lparr>Replaces :=
              (if need
               then rs @ [\<lparr>Old_Path = op, Old_Version = ov, New_Path = np, New_Version = nv,
                            Syntax = ReplaceD op ov np nv\<rparr>]
               else rs)\<rparr>)"

definition modfile_Format :: "modfile_File \<Rightarrow> directive list" where
  \<comment> \<open>the statements \<open>f.Format()\<close> prints: the module statement, the \<open>require\<close> lines, the
      \<open>replace\<close> lines\<close>
  "modfile_Format f =
     (case Module_stmt f of None \<Rightarrow> [] | Some p \<Rightarrow> [ModuleD p])
     @ map (\<lambda>(p, v). RequireD p v) (Require f)
     @ map Syntax (Replaces f)"

definition modfile_Parse :: "string \<Rightarrow> file_data \<Rightarrow> error + directive list" where
  \<comment> \<open>\<open>modfile.Parse(file, data, nil)\<close>: the statements of a manifest\<close>
  "modfile_Parse name d = (case d of [Formatted ds] \<Rightarrow> Inr ds | _ \<Rightarrow> Inl (ParseError name))"

fun gomod_Replace :: "directive list \<Rightarrow> (string \<times> string \<times> string \<times> string) list" where
  \<comment> \<open>\<open>gomod.Replace\<close> of a parsed manifest: old path and version, new path and version\<close>
  "gomod_Replace [] = []"
| "gomod_Replace (ReplaceD op ov np nv # ds) = (op, ov, np, nv) # gomod_Replace ds"
| "gomod_Replace (_ # ds) = gomod_Replace ds"

section \<open>The build (src/pkg/bb/bb.go)\<close>

definition listStrings :: "range_order \<Rightarrow> (string \<times> unit) list \<Rightarrow> string list" where
  \<comment> \<open>the keys of the map, in the order of the iteration\<close>
  "listStrings ord mp = map fst (range_map ord ''listStrings'' mp)"

fun checkDuplicate_loop :: "(string \<times> string) list \<Rightarrow> bb_package list \<Rightarrow> error option" where
  \<comment> \<open>the loop of \<open>checkDuplicate\<close>; \<open>seen\<close> maps a name to the path of its package\<close>
  "checkDuplicate_loop seen [] = None"
| "checkDuplicate_loop seen (cmd # cmds) =
     (case map_of seen (Name cmd) of
        Some path \<Rightarrow> Some (DuplicateCommand (Name cmd) path (PkgPath (Pkg cmd)))
      | None \<Rightarrow> checkDuplicate_loop (AList.update (Name cmd) (PkgPath (Pkg cmd)) seen) cmds)"

definition checkDuplicate :: "bb_package list \<Rightarrow> error option" where
  "checkDuplicate cmds = checkDuplicate_loop [] cmds"

definition isReplacedModuleLocal :: "string \<Rightarrow> bool" where
  \<comment> \<open>on the \<open>Path\<close> of the replacement module\<close>
  "isReplacedModuleLocal p =
     (strings_HasPrefix p ''./'' \<or> strings_HasPrefix p ''../'' \<or> strings_HasPrefix p ''/'')"

definition copyGoMod :: "string \<Rightarrow> string \<Rightarrow> go_module option \<Rightarrow> os_state \<Rightarrow> errno option \<times> os_state" where
  \<comment> \<open>the closure \<open>copyGoMod\<close> of \<open>localModules\<close>\<close>
  "copyGoMod pkgDir bbDir modl s =
     (case modl of
        None \<Rightarrow> (None, s)
      | Some md \<Rightarrow>
          (case os_MkdirAll (path_Join [pkgDir, Path md]) s of
             (Some e, s1) \<Rightarrow> if e = EEXIST then (None, s1) else (Some e, s1)
           | (None, s1) \<Rightarrow>
               (case cp_Copy (GoMod md) (path_Join [pkgDir, Path md, ''go.mod'']) s1 of
                  (Some e, s2) \<Rightarrow> (Some e, s2)
                | (None, s2) \<Rightarrow>
                    let gosum = path_Join [filepath_Dir (GoMod md), ''go.sum''] in
                    (case cp_Copy gosum (path_Join [pkgDir, Path md, ''go.sum'']) s2 of
                       (Some e, s3) \<Rightarrow> if e = ENOENT then (None, s3) else (Some e, s3)
                     | (None, s3) \<Rightarrow>
                         (case ioutil_ReadFile gosum s3 of
                            Inl e \<Rightarrow> (Some e, s3)
                          | Inr d \<Rightarrow> append_file (path_Join [bbDir, ''go.sum'']) d s3)))))"

datatype localModule = LocalModule (lm_m: go_module) (provenance: string)

definition locallyReplacedModules :: "bb_package \<Rightarrow> (string \<times> go_module) list" where
  \<comment> \<open>called on \<open>p.Pkg\<close> in the source; the map \<open>m\<close>, filled in the order of the visit\<close>
  "locallyReplacedModules p =
     (case Module (Pkg p) of
        None \<Rightarrow> []
      | Some _ \<Rightarrow>
          foldl (\<lambda>mp pkg.
                   case Module pkg of
                     None \<Rightarrow> mp
                   | Some md \<Rightarrow>
                       (case Replace md of
                          None \<Rightarrow> mp
                        | Some r \<Rightarrow>
                            if isReplacedModuleLocal r then AList.update (Path md) md mp else mp))
            [] (packages_Visit p))"

definition moduleIdentifier :: "go_module \<Rightarrow> string" where
  "moduleIdentifier md =
     (case Replace md of
        Some r \<Rightarrow> if isReplacedModuleLocal r then ''directory '' @ r else ''version '' @ Version md
      | None \<Rightarrow> ''version '' @ Version md)"

definition top_level_module ::
  "string \<Rightarrow> string \<Rightarrow> bb_package \<Rightarrow> (string \<times> localModule) list \<Rightarrow> os_state
     \<Rightarrow> (error + (string \<times> localModule) list) \<times> os_state" where
  \<comment> \<open>the body of the first loop of \<open>localModules\<close> (find all top-level modules)\<close>
  "top_level_module pkgDir bbDir p lms s =
     (case Module (Pkg p) of
        None \<Rightarrow> (Inr lms, s)
      | Some md \<Rightarrow>
          (case map_of lms (Path md) of
             Some _ \<Rightarrow> (Inr lms, s)
           | None \<Rightarrow>
               let lms' = AList.update (Path md)
                     (LocalModule md (''your request to compile '' @ Path md @ '' from '' @ Dir md)) lms
               in (case copyGoMod pkgDir bbDir (Some md) s of
                     (Some e, s') \<Rightarrow> (Inl (FailedToCopyGoMod (Path md) e), s')
                   | (None, s') \<Rightarrow> (Inr lms', s'))))"

definition replaced_module ::
  "string \<Rightarrow> string \<Rightarrow> go_module \<Rightarrow> string \<times> go_module \<Rightarrow> (string \<times> localModule) list
     \<Rightarrow> os_state \<Rightarrow> (error + (string \<times> localModule) list) \<times> os_state" where
  \<comment> \<open>the body of the inner loop of the second loop of \<open>localModules\<close>; \<open>pm\<close> is
      \<open>p.Pkg.Module\<close>\<close>
  "replaced_module pkgDir bbDir pm = (\<lambda>(modPath, modl) lms s.
     (case map_of lms modPath of
        Some original \<Rightarrow>
          if Dir (lm_m original) \<noteq> Dir modl
          then (Inl (TwoConflictingVersions modPath (provenance original) (Path pm)), s)
          else (Inr lms, s)
      | None \<Rightarrow>
          let lms' = AList.update modPath
                (LocalModule modl (Path pm @ CHR 0x27 # ''s go.mod ('' @ GoMod pm @ '')'')) lms
          in (case copyGoMod pkgDir bbDir (Some modl) s of
                (Some e, s') \<Rightarrow> (Inl (FailedToCopyGoMod (Path pm) e), s')
              | (None, s') \<Rightarrow> (Inr lms', s'))))"

definition replaced_modules ::
  "range_order \<Rightarrow> string \<Rightarrow> string \<Rightarrow> bb_package
     \<Rightarrow> (string \<times> localModule) list \<Rightarrow> os_state
     \<Rightarrow> (error + (string \<times> localModule) list) \<times> os_state" where
  \<comment> \<open>the body of the second loop of \<open>localModules\<close>: a package without a module has no
      replaced modules\<close>
  "replaced_modules ord pkgDir bbDir p lms s =
     (case Module (Pkg p) of
        None \<Rightarrow> (Inr lms, s)
      | Some pm \<Rightarrow>
          for_each (replaced_module pkgDir bbDir pm)
            (range_map ord (''replacedModules '' @ ID (Pkg p)) (locallyReplacedModules p)) lms s)"

definition visit_conflict ::
  "(string \<times> localModule) list \<Rightarrow> bb_package \<Rightarrow> go_package \<Rightarrow> bool \<Rightarrow> os_state
     \<Rightarrow> (error + bool) \<times> os_state" where
  \<comment> \<open>the function the third loop of \<open>localModules\<close> hands to \<open>packages.Visit\<close>; the
      Boolean is the variable \<open>conflict\<close>\<close>
  "visit_conflict lms mainPkg p conflict s =
     (case Module p of
        None \<Rightarrow> (Inr conflict, s)
      | Some pm \<Rightarrow>
          (case map_of lms (Path pm) of
             None \<Rightarrow> (Inr conflict, s)
           | Some l \<Rightarrow>
               if Dir (lm_m l) \<noteq> Dir pm then
                 (let s1 = s\<lparr>stderr := stderr s @ [Blank, ConflictingDependencies (Path pm)]\<rparr> in
                  case Module (Pkg mainPkg) of
                    None \<Rightarrow> (Inl NilDereference, s1)
                  | Some mm \<Rightarrow>
                      let replacePath =
                            (case filepath_Rel (Dir mm) (Dir (lm_m l)) of
                               None \<Rightarrow> Dir (lm_m l)
                             | Some r \<Rightarrow> r)
                      in (Inr True,
                          s1\<lparr>stderr := stderr s1 @
                               [Uses (Path mm) (moduleIdentifier pm),
                                Uses (provenance l) (moduleIdentifier (lm_m l)),
                                Blank,
                                Suggestion (Path pm) replacePath (GoMod mm),
                                Blank]\<rparr>))
               else (Inr conflict, s)))"

definition localModules ::
  "range_order \<Rightarrow> string \<Rightarrow> string \<Rightarrow> bb_package list \<Rightarrow> os_state
     \<Rightarrow> (error + (string \<times> go_module) list) \<times> os_state" where
  "localModules ord pkgDir bbDir mainPkgs s =
     (case for_each (top_level_module pkgDir bbDir) mainPkgs [] s of
        (Inl e, s1) \<Rightarrow> (Inl e, s1)
      | (Inr lms1, s1) \<Rightarrow>
          (case for_each (replaced_modules ord pkgDir bbDir) mainPkgs lms1 s1 of
             (Inl e, s2) \<Rightarrow> (Inl e, s2)
           | (Inr lms, s2) \<Rightarrow>
               (case for_each (\<lambda>mainPkg. for_each (visit_conflict lms mainPkg) (packages_Visit mainPkg))
                       mainPkgs False s2 of
                  (Inl e, s3) \<Rightarrow> (Inl e, s3)
                | (Inr conflict, s3) \<Rightarrow>
                    if conflict then (Inl ConflictingDependenciesFound, s3)
                    else (Inr (map (\<lambda>(modPath, l). (modPath, lm_m l)) (range_map ord ''localModules'' lms)), s3))))"

definition deps :: "bb_package \<Rightarrow> (go_package \<Rightarrow> bool) \<Rightarrow> go_package list" where
  \<comment> \<open>called on \<open>p.Pkg\<close> in the source\<close>
  "deps p flt = filter flt (packages_Visit p)"

definition collectDeps :: "bb_package \<Rightarrow> (string \<times> go_module) list \<Rightarrow> go_package list" where
  \<comment> \<open>called on \<open>p.Pkg\<close> in the source\<close>
  "collectDeps p lms =
     (case Module (Pkg p) of
        Some _ \<Rightarrow>
          deps p (\<lambda>pkg.
            (case Module pkg of
               Some md \<Rightarrow> (case Replace md of Some r \<Rightarrow> isReplacedModuleLocal r | None \<Rightarrow> False)
             | None \<Rightarrow> False)
            \<or> (\<exists>modulePath \<in> set (map fst lms). strings_HasPrefix (PkgPath pkg) modulePath))
      | None \<Rightarrow>
          deps p (\<lambda>pkg. CHR ''.'' \<in> set (hd (split_slash (PkgPath pkg)))))"

definition write_dep ::
  "externals \<Rightarrow> string \<Rightarrow> go_package \<Rightarrow> string list \<Rightarrow> os_state \<Rightarrow> (error + string list) \<times> os_state" where
  \<comment> \<open>the body of the loop of \<open>dealWithDeps\<close> that copies the local dependency packages;
      the list is \<open>seenIDs\<close>\<close>
  "write_dep ext pkgDir p seenIDs s =
     (if ID p \<notin> set seenIDs then
        (case WritePkg ext p (path_Join [pkgDir, PkgPath p]) s of
           (Some e, s') \<Rightarrow> (Inl (WritingPackageFailed (ID p) e), s')
         | (None, s') \<Rightarrow> (Inr (ID p # seenIDs), s'))
      else (Inr seenIDs, s))"

definition copy_replace :: "string \<times> string \<times> string \<times> string \<Rightarrow> modfile_File \<Rightarrow> modfile_File" where
  \<comment> \<open>the body of the loop of \<open>dealWithDeps\<close> over \<open>gomod.Replace\<close>\<close>
  "copy_replace = (\<lambda>(op, ov, np, nv) f.
     if strings_HasPrefix np ''./'' \<or> strings_HasPrefix np ''../'' \<or> strings_HasPrefix np ''/''
     then f
     else AddReplace op ov np nv f)"

definition add_local_module ::
  "string \<times> go_module \<Rightarrow> modfile_File \<Rightarrow> os_state \<Rightarrow> (error + modfile_File) \<times> os_state" where
  \<comment> \<open>the body of the loop of \<open>dealWithDeps\<close> over \<open>localModules\<close>\<close>
  "add_local_module = (\<lambda>(mpath, modl) f s.
     let v = (if length (Version modl) = 0 then ''v0.0.0'' else Version modl);
         f1 = AddRequire mpath v f;
         f2 = AddReplace mpath [] (path_Join [''..'', ''..'', mpath]) [] f1
     in if GoMod modl \<noteq> [] then
          (case ioutil_ReadFile (GoMod modl) s of
             Inl e \<Rightarrow> (Inl (OSError e), s)
           | Inr gomodData \<Rightarrow>
               (case modfile_Parse (GoMod modl) gomodData of
                  Inl e \<Rightarrow> (Inl e, s)
                | Inr gomod \<Rightarrow> (Inr (foldl (\<lambda>f r. copy_replace r f) f2 (gomod_Replace gomod)), s)))
        else (Inr f2, s))"

definition synthetic_gomod ::
  "range_order \<Rightarrow> (string \<times> go_module) list \<Rightarrow> os_state \<Rightarrow> (error + modfile_File) \<times> os_state" where
  \<comment> \<open>lines 706 to 748 of \<open>dealWithDeps\<close>: the manifest of the generated module, built by
      the loop over \<open>localModules\<close>\<close>
  "synthetic_gomod ord lms s =
     for_each add_local_module (range_map ord ''dealWithDeps'' lms)
       (AddModuleStmt ''bb.u-root.com/bb'' empty_File) s"

definition dealWithDeps ::
  "range_order \<Rightarrow> externals \<Rightarrow> Environ \<Rightarrow> string \<Rightarrow> string \<Rightarrow> string
     \<Rightarrow> bb_package list \<Rightarrow> os_state \<Rightarrow> error option \<times> os_state" where
  "dealWithDeps ord ext env bbDir tmpDir pkgDir mainPkgs s =
     (case localModules ord pkgDir bbDir mainPkgs s of
        (Inl e, s1) \<Rightarrow> (Some e, s1)
      | (Inr lms, s1) \<Rightarrow>
          let localDepPkgs = concat (map (\<lambda>p. collectDeps p lms) mainPkgs) in
          (case for_each (write_dep ext pkgDir) localDepPkgs [] s1 of
             (Inl e, s2) \<Rightarrow> (Some e, s2)
           | (Inr _, s2) \<Rightarrow>
               if GO111MODULE env = ''on'' \<or> length lms > 0 then
                 (case synthetic_gomod ord lms s2 of
                    (Inl e, s3) \<Rightarrow> (Some e, s3)
                  | (Inr f, s3) \<Rightarrow>
                      (case ioutil_WriteFile (path_Join [bbDir, ''go.mod'']) [Formatted (modfile_Format f)] s3 of
                         (Some e, s4) \<Rightarrow> (Some (OSError e), s4)
                       | (None, s4) \<Rightarrow> (None, s4)))
               else (None, s2)))"

definition mixed_mode :: "range_order \<Rightarrow> bool \<Rightarrow> bb_package list \<Rightarrow> error option" where
  \<comment> \<open>lines 356 to 367 of \<open>BuildBusybox\<close>: the map \<open>modules\<close>, the counter
      \<open>numNoModule\<close> and the check on them\<close>
  "mixed_mode ord allowMixedMode cmds =
     (let modules = foldl (\<lambda>mp cmd. case Module (Pkg cmd) of
                                        Some md \<Rightarrow> AList.update (Path md) () mp
                                      | None \<Rightarrow> mp) [] cmds;
          numNoModule = length (filter (\<lambda>cmd. Module (Pkg cmd) = None) cmds)
      in if \<not> allowMixedMode \<and> length modules > 0 \<and> numNoModule > 0
         then Some (MixedMode (listStrings ord modules))
         else None)"

definition rewrite_command ::
  "externals \<Rightarrow> string \<Rightarrow> bb_package \<Rightarrow> string list \<Rightarrow> os_state \<Rightarrow> (error + string list) \<times> os_state" where
  \<comment> \<open>the body of the loop of \<open>BuildBusybox\<close> that rewrites the commands; the list is
      \<open>bbImports\<close>\<close>
  "rewrite_command ext pkgDir cmd bbImports s =
     (let destination = path_Join [pkgDir, PkgPath (Pkg cmd)] in
      case Rewrite ext cmd destination ''bb.u-root.com/bb/pkg/bbmain'' s of
        (Some e, s') \<Rightarrow> (Inl (RewriteFailed (PkgPath (Pkg cmd)) e), s')
      | (None, s') \<Rightarrow> (Inr (bbImports @ [PkgPath (Pkg cmd)]), s'))"

definition writeBBMain :: "externals \<Rightarrow> string \<Rightarrow> string \<Rightarrow> string list \<Rightarrow> os_state \<Rightarrow> error option \<times> os_state" where
  \<comment> \<open>the parsing of the written \<open>main.go\<close>, the rewriting of its import and
      \<open>bbinternal.CreateBBMainSource\<close> are one parameter of the build\<close>
  "writeBBMain ext bbDir tmpDir bbImports s =
     (case os_MkdirAll (path_Join [bbDir, ''pkg/bbmain'']) s of
        (Some e, s1) \<Rightarrow> (Some (OSError e), s1)
      | (None, s1) \<Rightarrow>
          (case ioutil_WriteFile (path_Join [bbDir, ''pkg/bbmain/register.go''])
                  [Bytes (bbRegisterSource ext)] s1 of
             (Some e, s2) \<Rightarrow> (Some (OSError e), s2)
           | (None, s2) \<Rightarrow>
               (case ioutil_WriteFile (path_Join [bbDir, ''main.go'']) [Bytes (bbMainSource ext)] s2 of
                  (Some e, s3) \<Rightarrow> (Some (OSError e), s3)
                | (None, s3) \<Rightarrow>
                    (case CreateBBMainSource ext bbImports bbDir s3 of
                       (Some e, s4) \<Rightarrow> (Some (CreateMainFailed e), s4)
                     | (None, s4) \<Rightarrow> (None, s4)))))"

definition build_tree ::
  "range_order \<Rightarrow> externals \<Rightarrow> Opts \<Rightarrow> string \<Rightarrow> os_state \<Rightarrow> error option \<times> os_state" where
  \<comment> \<open>\<open>BuildBusybox\<close> from line 336 on, with the directory \<open>tmpDir\<close> chosen\<close>
  "build_tree ord ext opts tmpDir s =
     (let bbDir = path_Join [tmpDir, ''src/bb.u-root.com/bb''] in
      case os_MkdirAll bbDir s of
        (Some e, s1) \<Rightarrow> (Some (OSError e), s1)
      | (None, s1) \<Rightarrow>
          let pkgDir = path_Join [tmpDir, ''src''] in
          (case NewPackages ext (Env opts) (CommandPaths opts) s1 of
             (Inl e, s2) \<Rightarrow> (Some (FindingPackagesFailed e), s2)
           | (Inr cmds, s2) \<Rightarrow>
               if length cmds = 0 then (Some NoValidCommands, s2)
               else
                 (case checkDuplicate cmds of
                    Some e \<Rightarrow> (Some e, s2)
                  | None \<Rightarrow>
                      (case mixed_mode ord (AllowMixedMode opts) cmds of
                         Some e \<Rightarrow> (Some e, s2)
                       | None \<Rightarrow>
                           (case for_each (rewrite_command ext pkgDir) cmds [] s2 of
                              (Inl e, s3) \<Rightarrow> (Some e, s3)
                            | (Inr bbImports, s3) \<Rightarrow>
                                (case dealWithDeps ord ext (Env opts) bbDir tmpDir pkgDir cmds s3 of
                                   (Some e, s4) \<Rightarrow> (Some (DepsFailed e), s4)
                                 | (None, s4) \<Rightarrow>
                                     (case writeBBMain ext bbDir tmpDir bbImports s4 of
                                        (Some e, s5) \<Rightarrow> (Some (WriteMainFailed e), s5)
                                      | (None, s5) \<Rightarrow>
                                          if GenerateOnly opts then (None, s5)
                                          else
                                            let numNoModule = length (filter (\<lambda>cmd. Module (Pkg cmd) = None) cmds);
                                                gopath = (GO111MODULE (Env opts) = ''off'' \<or> numNoModule > 0);
                                                env = (if gopath then (Env opts)\<lparr>GOPATH := tmpDir\<rparr> else Env opts)
                                            in (case BuildDir ext env bbDir (BinaryPath opts) s5 of
                                                  (Some e, s6) \<Rightarrow>
                                                    if gopath then (Some (ErrGopathBuild bbDir tmpDir e), s6)
                                                    else (Some (ErrModuleBuild bbDir e), s6)
                                                | (None, s6) \<Rightarrow> (None, s6)))))))))"

definition gen_src_dir :: "Opts \<Rightarrow> os_state \<Rightarrow> (error + string) \<times> os_state" where
  \<comment> \<open>lines 298 to 317 of \<open>BuildBusybox\<close>: the directory the caller supplied\<close>
  "gen_src_dir opts s =
     (case (case ioutil_ReadDir (GenSrcDir opts) s of
              Inl e \<Rightarrow>
                if e = ENOENT then
                  (case os_MkdirAll (GenSrcDir opts) s of
                     (Some e', s') \<Rightarrow> (Inl (CouldNotCreateDir e'), s')
                   | (None, s') \<Rightarrow> (Inr (GenSrcDir opts), s'))
                else (Inl (CouldNotReadDir e), s)
            | Inr dirents \<Rightarrow>
                if length dirents > 0 then (Inl NotEmptyDir, s)
                else (Inr (GenSrcDir opts), s)) of
        (Inl e, s') \<Rightarrow> (Inl e, s')
      | (Inr relTmpDir, s') \<Rightarrow>
          (case filepath_Abs s' relTmpDir of
             None \<Rightarrow> (Inl (NotAbsolute relTmpDir), s')
           | Some absDir \<Rightarrow> (Inr absDir, s')))"

definition BuildBusybox ::
  "range_order \<Rightarrow> externals \<Rightarrow> Opts option \<Rightarrow> os_state \<Rightarrow> error option \<times> os_state" where
  "BuildBusybox ord ext opts s =
     (case opts of
        None \<Rightarrow> (Some NoOptions, s)
      | Some opt \<Rightarrow>
          (case Valid ext (Env opt) of
             Some e \<Rightarrow> (Some (EnvInvalid e), s)
           | None \<Rightarrow>
               if GenSrcDir opt \<noteq> [] then
                 (case gen_src_dir opt s of
                    (Inl e, s1) \<Rightarrow> (Some e, s1)
                  | (Inr tmpDir, s1) \<Rightarrow> build_tree ord ext opt tmpDir s1)
               else if GenerateOnly opt then (Some GenerateNeedsDir, s)
               else
                 (case ioutil_TempDir (TempName ext) s of
                    (Inl e, s1) \<Rightarrow> (Some (OSError e), s1)
                  | (Inr tmpDir, s1) \<Rightarrow>
                      (case build_tree ord ext opt tmpDir s1 of
                         (Some e, s2) \<Rightarrow> (Some e, s2\<lparr>stderr := stderr s2 @ [Preserving tmpDir]\<rparr>)
                       | (None, s2) \<Rightarrow> (None, os_RemoveAll tmpDir s2)))))"

section \<open>Example inputs\<close>

text \<open>Concrete inputs, on which the theorems below are instantiated.\<close>

definition example_registry :: registry where
  \<comment> \<open>the registry after the \<open>init\<close> of one rewritten command, \<open>ls\<close>\<close>
  "example_registry =
     \<lparr>bbCmds = [''ls'' \<mapsto> BBCmd (CommandFunc ''ls.init'') (CommandFunc ''ls.registeredMain'')],
      defaultCmd = None\<rparr>"

definition example_os :: os_state where
  \<comment> \<open>a machine with a root directory and nothing else\<close>
  "example_os = \<lparr>Getwd = Some ''/'', dirs = [''/''], files = [], links = [], stderr = []\<rparr>"

definition example_module_a :: go_module where
  "example_module_a =
     \<lparr>Path = ''example.com/a'', Version = '''', Dir = ''/src/a'', GoMod = ''/src/a/go.mod'',
      Replace = None\<rparr>"

definition example_module_b :: go_module where
  "example_module_b =
     \<lparr>Path = ''example.com/b/v2'', Version = '''', Dir = ''/src/b'', GoMod = ''/src/b/go.mod'',
      Replace = None\<rparr>"

definition example_ls_a :: bb_package where
  "example_ls_a =
     \<lparr>Name = ''ls'',
      Pkg = \<lparr>ID = ''example.com/a/cmd/ls'', PkgPath = ''example.com/a/cmd/ls'',
             Module = Some example_module_a\<rparr>,
      Imports = []\<rparr>"

definition example_ls_b :: bb_package where
  "example_ls_b =
     \<lparr>Name = ''ls'',
      Pkg = \<lparr>ID = ''example.com/b/v2/cmd/ls'', PkgPath = ''example.com/b/v2/cmd/ls'',
             Module = Some example_module_b\<rparr>,
      Imports = []\<rparr>"

definition example_cat_b :: bb_package where
  "example_cat_b =
     \<lparr>Name = ''cat'',
      Pkg = \<lparr>ID = ''example.com/b/v2/cmd/cat'', PkgPath = ''example.com/b/v2/cmd/cat'',
             Module = Some example_module_b\<rparr>,
      Imports = []\<rparr>"

definition example_hello :: bb_package where
  \<comment> \<open>a command outside every module\<close>
  "example_hello =
     \<lparr>Name = ''hello'',
      Pkg = \<lparr>ID = ''hello'', PkgPath = ''hello'', Module = None\<rparr>,
      Imports = []\<rparr>"

definition example_ls_plain :: bb_package where
  \<comment> \<open>a command named \<open>ls\<close> outside every module\<close>
  "example_ls_plain =
     \<lparr>Name = ''ls'',
      Pkg = \<lparr>ID = ''plain/ls'', PkgPath = ''plain/ls'', Module = None\<rparr>,
      Imports = []\<rparr>"

definition example_machine :: os_state where
  \<comment> \<open>the two modules on disk; both manifests replace \<open>example.com/x\<close>\<close>
  "example_machine =
     \<lparr>Getwd = Some ''/'',
      dirs = [''/'', ''/src'', ''/src/a'', ''/src/b'', ''/tmp''],
      files =
        [(''/src/a/go.mod'',
          [Formatted [ModuleD ''example.com/a'',
                      ReplaceD ''example.com/x'' '''' ''example.com/y1'' ''v1.0.0'']]),
         (''/src/b/go.mod'',
          [Formatted [ModuleD ''example.com/b/v2'',
                      ReplaceD ''example.com/x'' '''' ''example.com/y2'' ''v1.0.0'',
                      ReplaceD ''example.com/z'' '''' ''../z'' '''']]),
         (''/src/a/go.sum'', [Bytes ''example.com/x v1.0.0 h1:0'']) ],
      links = [], stderr = []\<rparr>"

definition example_externals :: "bb_package list \<Rightarrow> externals" where
  \<comment> \<open>a loader that finds the commands \<open>cmds\<close> and leaves the machine as it is, and
      helpers that succeed and write nothing\<close>
  "example_externals cmds =
     \<lparr>Valid = (\<lambda>env. None),
      NewPackages = (\<lambda>env paths s. (Inr cmds, s)),
      TempName = ''/tmp/bb-1'',
      Rewrite = (\<lambda>cmd destination bbmain s. (None, s)),
      WritePkg = (\<lambda>pkg destination s. (None, s)),
      bbRegisterSource = ''package bbmain'',
      bbMainSource = ''package main'',
      CreateBBMainSource = (\<lambda>bbImports bbDir s. (None, s)),
      BuildDir = (\<lambda>env bbDir binaryPath s. (None, s))\<rparr>"

definition example_opts :: Opts where
  "example_opts =
     \<lparr>Env = \<lparr>GO111MODULE = ''on'', GOPATH = ''''\<rparr>, GenSrcDir = ''/gen'',
      CommandPaths = [''/src/a/cmd/ls'', ''/src/b/cmd/*''], BinaryPath = ''/bb'',
      AllowMixedMode = False, GenerateOnly = True\<rparr>"

definition in_order :: range_order where
  \<comment> \<open>a run in which every \<open>range\<close> takes the keys in the order of their insertion\<close>
  "in_order = (\<lambda>site ks. ks)"

definition reversed :: range_order where
  \<comment> \<open>a run in which every \<open>range\<close> takes the keys in the reverse order\<close>
  "reversed = (\<lambda>site ks. rev ks)"

section \<open>Notions used in the proofs\<close>

definition seen_ok :: "(string \<times> string) list \<Rightarrow> bb_package list \<Rightarrow> bool" where
  \<comment> \<open>the map \<open>seen\<close> of \<open>checkDuplicate\<close> holds commands of the list \<open>pre\<close> only\<close>
  "seen_ok seen pre =
     (\<forall>n p. map_of seen n = Some p
        \<longrightarrow> (\<exists>i < length pre. Name (pre ! i) = n \<and> PkgPath (Pkg (pre ! i)) = p))"

definition loader_reads_only :: "externals \<Rightarrow> bool" where
  \<comment> \<open>the package loader writes nothing: it leaves the regular files and the working
      directory as they are and removes no directory\<close>
  "loader_reads_only ext =
     (\<forall>env paths s. files (snd (NewPackages ext env paths s)) = files s
        \<and> Getwd (snd (NewPackages ext env paths s)) = Getwd s
        \<and> set (dirs s) \<subseteq> set (dirs (snd (NewPackages ext env paths s))))"

definition modules_step :: "(string \<times> unit) list \<Rightarrow> bb_package \<Rightarrow> (string \<times> unit) list" where
  \<comment> \<open>one step of the loop that fills the map \<open>modules\<close> of \<open>BuildBusybox\<close>\<close>
  "modules_step = (\<lambda>mp cmd. case Module (Pkg cmd) of
                                Some md \<Rightarrow> AList.update (Path md) () mp
                              | None \<Rightarrow> mp)"

definition manifest_replaces :: "os_state \<Rightarrow> go_module \<Rightarrow> (string \<times> string \<times> string \<times> string) list" where
  \<comment> \<open>the \<open>replace\<close> directives of the manifest of a module, as \<open>dealWithDeps\<close> reads them;
      none when the module has no manifest or it cannot be read\<close>
  "manifest_replaces s md =
     (if GoMod md = [] then []
      else (case ioutil_ReadFile (GoMod md) s of
              Inl e \<Rightarrow> []
            | Inr gomodData \<Rightarrow>
                (case modfile_Parse (GoMod md) gomodData of
                   Inl e \<Rightarrow> []
                 | Inr gomod \<Rightarrow> gomod_Replace gomod)))"

definition local_replace :: "string \<Rightarrow> directive" where
  \<comment> \<open>the directive \<open>replace p => ../../p\<close> of a local module\<close>
  "local_replace p = ReplaceD p [] (path_Join [''..'', ''..'', p]) []"

definition placeholder_version :: "go_module \<Rightarrow> string" where
  \<comment> \<open>the version \<open>dealWithDeps\<close> requires a local module at\<close>
  "placeholder_version md = (if Version md = [] then ''v0.0.0'' else Version md)"

section \<open>Properties\<close>

lemma Base_examples:
  "filepath_Base ''/tmp/ls'' = ''ls''" "filepath_Base ''ls'' = ''ls''"
  "filepath_Base ''/bbin/bb/'' = ''bb''"
  "filepath_Base '''' = ''.''" "filepath_Base ''//'' = ''/''"
  by (simp_all add: filepath_Base_def)

lemma Clean_examples:
  "path_Clean ''../../github.com/u-root/u-root'' = ''../../github.com/u-root/u-root''"
  "path_Clean ''/a/./b/../c//d/'' = ''/a/c/d''"
  "path_Clean ''a/../..'' = ''..''"
  "path_Clean ''/..'' = ''/''"
  "path_Clean ''a/..'' = ''.''"
  by (simp_all add: path_Clean_def clean_step_def)

lemma Join_examples:
  "path_Join [''..'', ''..'', ''github.com/u-root/u-root''] = ''../../github.com/u-root/u-root''"
  "path_Join [''/tmp/bb-1'', ''src/bb.u-root.com/bb''] = ''/tmp/bb-1/src/bb.u-root.com/bb''"
  "path_Join ['''', ''''] = ''''"
  "filepath_Dir ''/foo/bar'' = ''/foo''"
  by (simp_all add: path_Join_def filepath_Dir_def path_Clean_def clean_step_def)

lemma init_registry:
  "fst (init (reg, args)) = RegisterDefault Noop StubDefault (Register ''bbdiagnose'' Noop ListCmds reg)"
  by (simp add: init_def Let_def)

lemma init_args:
  "snd (init (reg, args)) =
     (if length args > 2 \<and> strings_HasPrefix (args ! 1) ''#!'' then drop 2 args else args)"
  by (simp add: init_def Let_def)

lemma run_Cons: "run reg (a # rest) = Run reg (filepath_Base a) (a # rest)"
  by (simp add: run.simps)

lemma stub_default_shift: "rest \<noteq> [] \<Longrightarrow> stub_default reg (a # rest) = run reg rest"
  by (simp add: stub_default.simps)

lemma Run_miss:
  "bbCmds reg name = None \<Longrightarrow> defaultCmd reg = Some (BBCmd Noop StubDefault)
     \<Longrightarrow> Run reg name args = stub_default reg args"
  by (simp add: Run.simps lookup_cmd_def call_def split: prod.splits)

subsection \<open>The dispatch stub\<close>

text \<open>
  Claim C4.  When \<open>os.Args\<close> has at least three entries and the second begins with
  \<open>#!\<close>, the stub's \<open>init\<close> drops the first two entries; in every other case it leaves
  \<open>os.Args\<close> as it is.  Started with \<open>[/bbin/bb, #!ls, /tmp/ls, -la]\<close>, where \<open>/tmp/ls\<close> is
  not a symbolic link, the binary calls \<open>bbmain.Run\<close> with the name \<open>ls\<close> while \<open>os.Args\<close>
  is \<open>[/tmp/ls, -la]\<close>.
\<close>

theorem C4_shebang:
  "(3 \<le> length args \<and> strings_HasPrefix (args ! 1) ''#!''
      \<longrightarrow> snd (init (reg, args)) = drop 2 args)
   \<and> (length args < 3 \<or> \<not> strings_HasPrefix (args ! 1) ''#!''
      \<longrightarrow> snd (init (reg, args)) = args)
   \<and> (os_Readlink s ''/tmp/ls'' = None
      \<longrightarrow> busybox s reg [''/bbin/bb'', ''#!ls'', ''/tmp/ls'', ''-la'']
          = Some (Run (fst (init (reg, [''/bbin/bb'', ''#!ls'', ''/tmp/ls'', ''-la''])))
                    ''ls'' [''/tmp/ls'', ''-la'']))"
proof (intro conjI impI)
  assume "3 \<le> length args \<and> strings_HasPrefix (args ! 1) ''#!''"
  then show "snd (init (reg, args)) = drop 2 args"
    by (simp add: init_args)
next
  assume "length args < 3 \<or> \<not> strings_HasPrefix (args ! 1) ''#!''"
  then show "snd (init (reg, args)) = args"
    by (auto simp add: init_args)
next
  assume nolink: "os_Readlink s ''/tmp/ls'' = None"
  have res: "ResolveUntilLastSymlink s ''/tmp/ls'' = Some (Inr ''/tmp/ls'')"
    by (subst ResolveUntilLastSymlink.simps) (simp add: nolink)
  have args: "snd (init (reg, [''/bbin/bb'', ''#!ls'', ''/tmp/ls'', ''-la''])) = [''/tmp/ls'', ''-la'']"
    by (simp add: init_args strings_HasPrefix_def)
  have base: "filepath_Base ''/tmp/ls'' = ''ls''"
    by (simp add: filepath_Base_def)
  show "busybox s reg [''/bbin/bb'', ''#!ls'', ''/tmp/ls'', ''-la'']
          = Some (Run (fst (init (reg, [''/bbin/bb'', ''#!ls'', ''/tmp/ls'', ''-la''])))
                    ''ls'' [''/tmp/ls'', ''-la''])"
    using args res base
    by (simp add: busybox_def main_def split_beta run_Cons)
qed

lemma example_Run_ls:
  "Run (fst (init (example_registry, args))) ''ls'' [''/tmp/ls'', ''-la'']
     = ([Called (CommandFunc ''ls.init'') [''/tmp/ls'', ''-la''],
         Called (CommandFunc ''ls.registeredMain'') [''/tmp/ls'', ''-la'']], Exit0)"
  by (simp add: init_registry Run.simps lookup_cmd_def Register_def RegisterDefault_def
      example_registry_def call_def)

theorem C4_shebang_witness:
  "snd (init (example_registry, [''/bbin/bb'', ''#!ls'', ''/tmp/ls'', ''-la''])) = [''/tmp/ls'', ''-la'']
   \<and> snd (init (example_registry, [''/bbin/ls'', ''-la''])) = [''/bbin/ls'', ''-la'']
   \<and> snd (init (example_registry, [''/bbin/bb'', ''ls'', ''-la''])) = [''/bbin/bb'', ''ls'', ''-la'']
   \<and> busybox example_os example_registry [''/bbin/bb'', ''#!ls'', ''/tmp/ls'', ''-la'']
       = Some ([Called (CommandFunc ''ls.init'') [''/tmp/ls'', ''-la''],
                Called (CommandFunc ''ls.registeredMain'') [''/tmp/ls'', ''-la'']], Exit0)"
proof -
  have h1: "3 \<le> length [''/bbin/bb'', ''#!ls'', ''/tmp/ls'', ''-la'']
            \<and> strings_HasPrefix ([''/bbin/bb'', ''#!ls'', ''/tmp/ls'', ''-la''] ! 1) ''#!''"
    by (simp add: strings_HasPrefix_def)
  have h2: "length [''/bbin/ls'', ''-la''] < 3
            \<or> \<not> strings_HasPrefix ([''/bbin/ls'', ''-la''] ! 1) ''#!''"
    by simp
  have h3: "length [''/bbin/bb'', ''ls'', ''-la''] < 3
            \<or> \<not> strings_HasPrefix ([''/bbin/bb'', ''ls'', ''-la''] ! 1) ''#!''"
    by (simp add: strings_HasPrefix_def)
  have h4: "os_Readlink example_os ''/tmp/ls'' = None"
    by (simp add: os_Readlink_def os_path_def filepath_Abs_def filepath_IsAbs_def
        strings_HasPrefix_def example_os_def)
  show ?thesis
    using C4_shebang [of "[''/bbin/bb'', ''#!ls'', ''/tmp/ls'', ''-la'']" example_registry example_os] h1 h4
      C4_shebang [of "[''/bbin/ls'', ''-la'']" example_registry example_os] h2
      C4_shebang [of "[''/bbin/bb'', ''ls'', ''-la'']" example_registry example_os] h3
    by (simp add: example_Run_ls)
qed

text \<open>
  Claim C5, as amended.  \<open>run\<close> dispatches on the base name of \<open>os.Args[0]\<close>.  When that
  name is not registered and \<open>os.Args\<close> has at least two entries, the default handler of
  the stub shifts \<open>os.Args\<close> by one and \<open>run\<close> dispatches again, on the base name of the
  new \<open>os.Args[0]\<close> (not on the entry in full).
\<close>

theorem C5_dispatch:
  "run reg (a # rest) = Run reg (filepath_Base a) (a # rest)
   \<and> (bbCmds (fst (init (reg, argv))) (filepath_Base a) = None
       \<longrightarrow> run (fst (init (reg, argv))) (a # b # rest)
           = Run (fst (init (reg, argv))) (filepath_Base b) (b # rest))"
proof (intro conjI impI)
  show "run reg (a # rest) = Run reg (filepath_Base a) (a # rest)"
    by (rule run_Cons)
next
  let ?reg = "fst (init (reg, argv))"
  assume miss: "bbCmds ?reg (filepath_Base a) = None"
  have dflt: "defaultCmd ?reg = Some (BBCmd Noop StubDefault)"
    by (simp add: init_registry RegisterDefault_def Register_def)
  have "run ?reg (a # b # rest) = Run ?reg (filepath_Base a) (a # b # rest)"
    by (rule run_Cons)
  also have "\<dots> = stub_default ?reg (a # b # rest)"
    using miss dflt by (rule Run_miss)
  also have "\<dots> = run ?reg (b # rest)"
    by (simp add: stub_default_shift)
  also have "\<dots> = Run ?reg (filepath_Base b) (b # rest)"
    by (rule run_Cons)
  finally show "run ?reg (a # b # rest) = Run ?reg (filepath_Base b) (b # rest)" .
qed

text \<open>
  Claim C5 as stated has the new \<open>os.Args[0]\<close> in full as the name.  With \<open>ls\<close>
  registered and the arguments \<open>[bb, /bin/ls]\<close>, \<open>bb\<close> is not registered, and the stub runs
  \<open>ls\<close>, whereas a dispatch on the name \<open>/bin/ls\<close> would find no command.
\<close>

theorem C5_dispatch_counterexample:
  "bbCmds (fst (init (example_registry, [''bb'', ''/bin/ls'']))) (filepath_Base ''bb'') = None
   \<and> run (fst (init (example_registry, [''bb'', ''/bin/ls'']))) [''bb'', ''/bin/ls'']
       \<noteq> Run (fst (init (example_registry, [''bb'', ''/bin/ls'']))) ''/bin/ls'' [''/bin/ls'']"
  by (simp add: init_registry run.simps Run.simps stub_default.simps lookup_cmd_def Register_def
      RegisterDefault_def example_registry_def call_def filepath_Base_def)

theorem C5_dispatch_witness:
  "run example_registry [''/bbin/ls'', ''-la'']
     = ([Called (CommandFunc ''ls.init'') [''/bbin/ls'', ''-la''],
         Called (CommandFunc ''ls.registeredMain'') [''/bbin/ls'', ''-la'']], Exit0)
   \<and> run (fst (init (example_registry, [''bb'', ''/bin/ls'']))) [''bb'', ''/bin/ls'']
     = ([Called (CommandFunc ''ls.init'') [''/bin/ls''],
         Called (CommandFunc ''ls.registeredMain'') [''/bin/ls'']], Exit0)"
proof -
  have miss: "bbCmds (fst (init (example_registry, [''bb'', ''/bin/ls'']))) (filepath_Base ''bb'') = None"
    by (simp add: init_registry Register_def RegisterDefault_def example_registry_def
        filepath_Base_def)
  have b1: "filepath_Base ''/bbin/ls'' = ''ls''" and b2: "filepath_Base ''/bin/ls'' = ''ls''"
    by (simp_all add: filepath_Base_def)
  have r1: "Run example_registry ''ls'' [''/bbin/ls'', ''-la'']
     = ([Called (CommandFunc ''ls.init'') [''/bbin/ls'', ''-la''],
         Called (CommandFunc ''ls.registeredMain'') [''/bbin/ls'', ''-la'']], Exit0)"
    by (simp add: Run.simps lookup_cmd_def example_registry_def call_def)
  have r2: "Run (fst (init (example_registry, [''bb'', ''/bin/ls'']))) ''ls'' [''/bin/ls'']
     = ([Called (CommandFunc ''ls.init'') [''/bin/ls''],
         Called (CommandFunc ''ls.registeredMain'') [''/bin/ls'']], Exit0)"
    by (simp add: init_registry Run.simps lookup_cmd_def Register_def RegisterDefault_def
        example_registry_def call_def)
  show ?thesis
    using C5_dispatch [of example_registry "''/bbin/ls''" "[''-la'']" "[''bb'', ''/bin/ls'']" "''/bin/ls''"]
      C5_dispatch [of example_registry "''bb''" "[]" "[''bb'', ''/bin/ls'']" "''/bin/ls''"]
      miss b1 b2 r1 r2
    by simp
qed


subsection \<open>for_each and range\<close>

lemma in_map_filter_lookup:
  "(k, v) \<in> set (List.map_filter (\<lambda>k. map_option (Pair k) (f k)) ks) \<longleftrightarrow> k \<in> set ks \<and> f k = Some v"
  by (induction ks) (auto simp add: List.map_filter_simps split: option.splits)

lemma range_map_set:
  assumes "is_range_order ord" "distinct (map fst mp)"
  shows "set (range_map ord site mp) = set mp"
proof -
  from assms have o: "set (ord site (map fst mp)) = set (map fst mp)"
    by (simp add: is_range_order_def)
  have "(k, v) \<in> set (range_map ord site mp) \<longleftrightarrow> (k, v) \<in> set mp" for k v
  proof -
    have "(k, v) \<in> set (range_map ord site mp) \<longleftrightarrow> k \<in> set (map fst mp) \<and> map_of mp k = Some v"
      using o by (simp add: range_map_def in_map_filter_lookup)
    also have "\<dots> \<longleftrightarrow> (k, v) \<in> set mp"
      using assms(2) by (auto dest: map_of_SomeD intro: rev_image_eqI)
    finally show ?thesis .
  qed
  then show ?thesis by auto
qed

lemma range_map_keys:
  assumes "is_range_order ord" "distinct (map fst mp)"
  shows "map fst (range_map ord site mp) = ord site (map fst mp)"
proof -
  from assms have o: "set (ord site (map fst mp)) = set (map fst mp)"
    by (simp add: is_range_order_def)
  have "\<And>ks. set ks \<subseteq> set (map fst mp) \<Longrightarrow>
     map fst (List.map_filter (\<lambda>k. map_option (Pair k) (map_of mp k)) ks) = ks"
  proof -
    fix ks show "set ks \<subseteq> set (map fst mp) \<Longrightarrow>
     map fst (List.map_filter (\<lambda>k. map_option (Pair k) (map_of mp k)) ks) = ks"
    proof (induction ks)
      case Nil
      then show ?case by (simp add: List.map_filter_simps)
    next
      case (Cons k ks)
      then have "k \<in> fst ` set mp" by auto
      then obtain v where "map_of mp k = Some v"
        by (metis domD dom_map_of_conv_image_fst)
      with Cons show ?case by (simp add: List.map_filter_simps)
    qed
  qed
  then show ?thesis using o by (simp add: range_map_def)
qed

lemma range_map_distinct:
  assumes "is_range_order ord" "distinct (map fst mp)"
  shows "distinct (map fst (range_map ord site mp))"
  using assms by (simp add: range_map_keys is_range_order_def)

lemma is_range_order_id: "is_range_order (\<lambda>site ks. ks)"
  by (simp add: is_range_order_def)

subsection \<open>checkDuplicate\<close>

lemma checkDuplicate_loop_None:
  "checkDuplicate_loop seen cmds = None
     \<longleftrightarrow> distinct (map Name cmds) \<and> (\<forall>c \<in> set cmds. map_of seen (Name c) = None)"
proof (induction cmds arbitrary: seen)
  case Nil
  then show ?case by simp
next
  case (Cons c cmds)
  show ?case
  proof (cases "map_of seen (Name c)")
    case None
    have upd: "(\<forall>d \<in> set cmds. map_of (AList.update (Name c) (PkgPath (Pkg c)) seen) (Name d) = None)
        \<longleftrightarrow> Name c \<notin> Name ` set cmds \<and> (\<forall>d \<in> set cmds. map_of seen (Name d) = None)"
      by (simp add: AList.update_conv' image_iff) metis
    show ?thesis
      using None Cons.IH [of "AList.update (Name c) (PkgPath (Pkg c)) seen"]
      by (simp add: upd) blast
  next
    case (Some p)
    then show ?thesis by simp
  qed
qed

lemma checkDuplicate_loop_Some:
  "seen_ok seen pre \<Longrightarrow> checkDuplicate_loop seen rest = Some e \<Longrightarrow>
     \<exists>i j. i < j \<and> j < length (pre @ rest)
       \<and> Name ((pre @ rest) ! i) = Name ((pre @ rest) ! j)
       \<and> e = DuplicateCommand (Name ((pre @ rest) ! j))
               (PkgPath (Pkg ((pre @ rest) ! i))) (PkgPath (Pkg ((pre @ rest) ! j)))"
proof (induction rest arbitrary: seen pre)
  case Nil
  then show ?case by simp
next
  case (Cons c rest)
  show ?case
  proof (cases "map_of seen (Name c)")
    case (Some p)
    with Cons.prems(1) obtain i where i: "i < length pre" "Name (pre ! i) = Name c"
        "PkgPath (Pkg (pre ! i)) = p"
      unfolding seen_ok_def by blast
    from Some Cons.prems(2) have e: "e = DuplicateCommand (Name c) p (PkgPath (Pkg c))"
      by simp
    show ?thesis
      apply (rule exI [of _ i], rule exI [of _ "length pre"])
      using i e by (simp add: nth_append)
  next
    case None
    let ?seen = "AList.update (Name c) (PkgPath (Pkg c)) seen"
    have ok: "seen_ok ?seen (pre @ [c])"
      unfolding seen_ok_def
    proof (intro allI impI)
      fix n p assume "map_of ?seen n = Some p"
      then consider "n = Name c" "p = PkgPath (Pkg c)" | "n \<noteq> Name c" "map_of seen n = Some p"
        by (auto simp add: AList.update_conv' split: if_splits)
      then show "\<exists>i<length (pre @ [c]). Name ((pre @ [c]) ! i) = n \<and> PkgPath (Pkg ((pre @ [c]) ! i)) = p"
      proof cases
        case 1
        then show ?thesis by (intro exI [of _ "length pre"]) simp
      next
        case 2
        with Cons.prems(1) obtain i where "i < length pre" "Name (pre ! i) = n"
            "PkgPath (Pkg (pre ! i)) = p"
          unfolding seen_ok_def by blast
        then show ?thesis by (intro exI [of _ i]) (simp add: nth_append)
      qed
    qed
    from None Cons.prems(2) have "checkDuplicate_loop ?seen rest = Some e" by simp
    from Cons.IH [OF ok this] show ?thesis by simp
  qed
qed

lemma checkDuplicate_Some_is_duplicate:
  "checkDuplicate cmds = Some e \<Longrightarrow> \<exists>n p q. e = DuplicateCommand n p q"
  using checkDuplicate_loop_Some [of "[]" "[]" cmds e]
  by (auto simp add: checkDuplicate_def seen_ok_def)

lemma build_tree_checkDuplicate:
  assumes "os_MkdirAll (path_Join [tmpDir, ''src/bb.u-root.com/bb'']) s = (None, s1)"
    and "NewPackages ext (Env opts) (CommandPaths opts) s1 = (Inr cmds, s2)"
    and "checkDuplicate cmds = Some e"
  shows "build_tree ord ext opts tmpDir s = (Some e, s2)"
proof -
  from assms(3) have "cmds \<noteq> []"
    by (auto simp add: checkDuplicate_def)
  with assms show ?thesis
    by (simp add: build_tree_def Let_def)
qed

text \<open>
  Claim C2.  When two commands of the list have the same name, \<open>checkDuplicate\<close> returns
  the error that names the name and the paths of the two packages, the earlier one
  first; when the names are pairwise distinct it returns no error.  \<open>BuildBusybox\<close>
  returns the error of \<open>checkDuplicate\<close> as it is, once the directory of the generated
  tree is made and the loader has returned the commands.
\<close>

theorem C2_duplicate:
  "(\<not> distinct (map Name cmds) \<longrightarrow>
      (\<exists>i j. i < j \<and> j < length cmds \<and> Name (cmds ! i) = Name (cmds ! j)
         \<and> checkDuplicate cmds
             = Some (DuplicateCommand (Name (cmds ! j))
                       (PkgPath (Pkg (cmds ! i))) (PkgPath (Pkg (cmds ! j))))))
   \<and> (distinct (map Name cmds) \<longrightarrow> checkDuplicate cmds = None)
   \<and> (os_MkdirAll (path_Join [tmpDir, ''src/bb.u-root.com/bb'']) s = (None, s1)
        \<and> NewPackages ext (Env opts) (CommandPaths opts) s1 = (Inr cmds, s2)
        \<and> checkDuplicate cmds = Some e
      \<longrightarrow> build_tree ord ext opts tmpDir s = (Some e, s2))"
proof (intro conjI impI)
  assume "\<not> distinct (map Name cmds)"
  then have "checkDuplicate cmds \<noteq> None"
    by (simp add: checkDuplicate_def checkDuplicate_loop_None)
  then obtain e' where e': "checkDuplicate cmds = Some e'" by blast
  have "seen_ok [] []" by (simp add: seen_ok_def)
  from checkDuplicate_loop_Some [OF this, of cmds e'] e'
  show "\<exists>i j. i < j \<and> j < length cmds \<and> Name (cmds ! i) = Name (cmds ! j)
         \<and> checkDuplicate cmds
             = Some (DuplicateCommand (Name (cmds ! j))
                       (PkgPath (Pkg (cmds ! i))) (PkgPath (Pkg (cmds ! j))))"
    by (auto simp add: checkDuplicate_def)
next
  assume "distinct (map Name cmds)"
  then show "checkDuplicate cmds = None"
    by (simp add: checkDuplicate_def checkDuplicate_loop_None)
next
  assume "os_MkdirAll (path_Join [tmpDir, ''src/bb.u-root.com/bb'']) s = (None, s1)
        \<and> NewPackages ext (Env opts) (CommandPaths opts) s1 = (Inr cmds, s2)
        \<and> checkDuplicate cmds = Some e"
  then show "build_tree ord ext opts tmpDir s = (Some e, s2)"
    by (simp add: build_tree_checkDuplicate)
qed

lemma modules_keys:
  "fst ` set (foldl modules_step acc cmds)
     = fst ` set acc \<union> {Path md | c md. c \<in> set cmds \<and> Module (Pkg c) = Some md}"
proof (induction cmds arbitrary: acc)
  case Nil
  then show ?case by simp
next
  case (Cons c cmds)
  show ?case
  proof (cases "Module (Pkg c)")
    case None
    then show ?thesis using Cons.IH [of acc] by (auto simp add: modules_step_def)
  next
    case (Some md)
    then show ?thesis
      using Cons.IH [of "AList.update (Path md) () acc"]
      by (auto simp add: modules_step_def AList.dom_update)
  qed
qed

lemma modules_distinct:
  "distinct (map fst acc) \<Longrightarrow> distinct (map fst (foldl modules_step acc cmds))"
proof (induction cmds arbitrary: acc)
  case Nil
  then show ?case by simp
next
  case (Cons c cmds)
  then show ?case
    by (cases "Module (Pkg c)") (simp_all add: modules_step_def AList.distinct_update)
qed

lemma mixed_mode_unfold:
  "mixed_mode ord allow cmds =
     (if \<not> allow \<and> foldl modules_step [] cmds \<noteq> [] \<and> (\<exists>c \<in> set cmds. Module (Pkg c) = None)
      then Some (MixedMode (listStrings ord (foldl modules_step [] cmds)))
      else None)"
proof -
  have "(0 < length (filter (\<lambda>cmd. Module (Pkg cmd) = None) cmds)) \<longleftrightarrow> (\<exists>c \<in> set cmds. Module (Pkg c) = None)"
    by (simp add: filter_empty_conv)
  then show ?thesis
    by (simp add: mixed_mode_def Let_def modules_step_def)
qed

lemma modules_nonempty:
  "foldl modules_step [] cmds \<noteq> [] \<longleftrightarrow> (\<exists>c \<in> set cmds. Module (Pkg c) \<noteq> None)"
proof -
  have "foldl modules_step [] cmds \<noteq> [] \<longleftrightarrow> fst ` set (foldl modules_step [] cmds) \<noteq> {}"
    by simp
  also have "\<dots> \<longleftrightarrow> (\<exists>c \<in> set cmds. Module (Pkg c) \<noteq> None)"
    unfolding modules_keys by auto
  finally show ?thesis .
qed

lemma mixed_mode_Some_is_mixed:
  "mixed_mode ord allow cmds = Some e \<Longrightarrow> \<exists>names. e = MixedMode names"
  by (auto simp add: mixed_mode_unfold split: if_splits)

subsection \<open>The directories of the generated tree\<close>

lemma self_in_ancestors: "key (path_elements q) \<in> set (ancestors q)"
  unfolding ancestors_def set_map
  by (rule image_eqI [where x = "length (path_elements q)"]) simp_all

lemma os_MkdirAll_effect:
  assumes "os_MkdirAll p s = (r, s')"
  shows "files s' = files s \<and> Getwd s' = Getwd s \<and> stderr s' = stderr s \<and> links s' = links s
     \<and> set (dirs s) \<subseteq> set (dirs s')
     \<and> (r = None \<longrightarrow> (\<exists>q. os_path s p = Some q \<and> q \<in> set (dirs s')))
     \<and> (r \<noteq> None \<longrightarrow> s' = s)"
proof (cases "filepath_Abs s p")
  case None
  with assms show ?thesis by (auto simp add: os_MkdirAll_def)
next
  case (Some a)
  then show ?thesis
    using assms self_in_ancestors [of a]
    by (auto simp add: os_MkdirAll_def os_path_def split: if_splits)
qed

lemma os_path_cong:
  "Getwd s' = Getwd s \<Longrightarrow> os_path s' p = os_path s p"
  by (simp add: os_path_def filepath_Abs_def)

lemma ioutil_TempDir_effect:
  assumes "ioutil_TempDir name s = (r, s')"
  shows "files s' = files s \<and> Getwd s' = Getwd s \<and> stderr s' = stderr s
     \<and> set (dirs s) \<subseteq> set (dirs s')
     \<and> (\<forall>e. r = Inl e \<longrightarrow> s' = s)
     \<and> (\<forall>d. r = Inr d \<longrightarrow>
           d = name \<and> (\<exists>q. os_path s name = Some q \<and> q \<notin> set (dirs s) \<and> q \<in> set (dirs s')))"
  using assms
  by (auto simp add: ioutil_TempDir_def os_path_def Let_def split: option.splits if_splits)

theorem C2_duplicate_witness:
  "checkDuplicate [example_ls_a, example_ls_b]
     = Some (DuplicateCommand ''ls'' ''example.com/a/cmd/ls'' ''example.com/b/v2/cmd/ls'')
   \<and> checkDuplicate [example_ls_a, example_cat_b] = None
   \<and> fst (build_tree in_order (example_externals [example_ls_a, example_ls_b]) example_opts ''/gen''
            example_machine)
       = Some (DuplicateCommand ''ls'' ''example.com/a/cmd/ls'' ''example.com/b/v2/cmd/ls'')"
proof -
  let ?dup = "[example_ls_a, example_ls_b]"
  let ?ok = "[example_ls_a, example_cat_b]"
  let ?ext = "example_externals ?dup"
  let ?s1 = "snd (os_MkdirAll (path_Join [''/gen'', ''src/bb.u-root.com/bb'']) example_machine)"
  have h1: "\<not> distinct (map Name ?dup)"
    by (simp add: example_ls_a_def example_ls_b_def)
  have h2: "distinct (map Name ?ok)"
    by (simp add: example_ls_a_def example_cat_b_def)
  from C2_duplicate [where cmds = ?dup, THEN conjunct1, rule_format, OF h1]
  obtain i j where ij: "i < j" "j < length ?dup"
    and cd: "checkDuplicate ?dup
      = Some (DuplicateCommand (Name (?dup ! j)) (PkgPath (Pkg (?dup ! i))) (PkgPath (Pkg (?dup ! j))))"
    by blast
  from ij have "j = 1" "i = 0" by simp_all
  with cd have c1: "checkDuplicate ?dup
     = Some (DuplicateCommand ''ls'' ''example.com/a/cmd/ls'' ''example.com/b/v2/cmd/ls'')"
    by (simp add: example_ls_a_def example_ls_b_def)
  from C2_duplicate [where cmds = ?ok, THEN conjunct2, THEN conjunct1, rule_format, OF h2]
  have c2: "checkDuplicate ?ok = None" .
  have mk: "os_MkdirAll (path_Join [''/gen'', ''src/bb.u-root.com/bb'']) example_machine = (None, ?s1)"
    by code_simp
  have np: "NewPackages ?ext (Env example_opts) (CommandPaths example_opts) ?s1 = (Inr ?dup, ?s1)"
    by (simp add: example_externals_def)
  from C2_duplicate [where cmds = ?dup and ord = in_order, THEN conjunct2, THEN conjunct2,
      rule_format, OF conjI [OF mk conjI [OF np c1]]]
  have c3: "build_tree in_order ?ext example_opts ''/gen'' example_machine
     = (Some (DuplicateCommand ''ls'' ''example.com/a/cmd/ls'' ''example.com/b/v2/cmd/ls''), ?s1)" .
  from c1 c2 c3 show ?thesis by simp
qed


subsection \<open>The registry of the generated binary\<close>







subsection \<open>The check of mixed builds\<close>

lemma build_tree_mixed_mode:
  assumes "os_MkdirAll (path_Join [tmpDir, ''src/bb.u-root.com/bb'']) s = (None, s1)"
    and "NewPackages ext (Env opts) (CommandPaths opts) s1 = (Inr cmds, s2)"
    and "checkDuplicate cmds = None"
    and "mixed_mode ord (AllowMixedMode opts) cmds = Some e"
  shows "build_tree ord ext opts tmpDir s = (Some e, s2)"
proof -
  from assms(4) have "cmds \<noteq> []"
    by (auto simp add: mixed_mode_unfold split: if_splits)
  with assms show ?thesis
    by (simp add: build_tree_def Let_def)
qed

lemma mixed_mode_names:
  assumes "is_range_order ord" "\<not> allow"
    and "\<exists>c \<in> set cmds. Module (Pkg c) \<noteq> None" "\<exists>c \<in> set cmds. Module (Pkg c) = None"
  shows "mixed_mode ord allow cmds = Some (MixedMode (listStrings ord (foldl modules_step [] cmds)))"
    and "set (listStrings ord (foldl modules_step [] cmds))
           = {Path md | c md. c \<in> set cmds \<and> Module (Pkg c) = Some md}"
    and "distinct (listStrings ord (foldl modules_step [] cmds))"
proof -
  let ?mods = "foldl modules_step [] cmds"
  have d: "distinct (map fst ?mods)" by (simp add: modules_distinct)
  have "set (listStrings ord ?mods) = fst ` set ?mods"
    using assms(1) d by (simp add: listStrings_def range_map_keys is_range_order_def)
  also have "\<dots> = {Path md | c md. c \<in> set cmds \<and> Module (Pkg c) = Some md}"
    by (simp add: modules_keys)
  finally show "set (listStrings ord ?mods)
      = {Path md | c md. c \<in> set cmds \<and> Module (Pkg c) = Some md}" .
  show "mixed_mode ord allow cmds = Some (MixedMode (listStrings ord ?mods))"
    using assms by (simp add: mixed_mode_unfold modules_nonempty)
  show "distinct (listStrings ord ?mods)"
    using assms(1) d by (simp add: listStrings_def range_map_distinct)
qed

text \<open>
  Claim C9, as amended.  When \<open>AllowMixedMode\<close> is false and the commands hold one with a
  module and one without, the check of \<open>BuildBusybox\<close> fails with the error that lists
  the paths of the commands' modules (each once, in the order in which the map is ranged
  over); when \<open>AllowMixedMode\<close> is true, or every command has a module, or none has, the
  check passes.  The build fails with this error when, in addition, the names of the
  commands are pairwise distinct: the check of the names comes first (once the directory
  of the generated tree is made and the loader has returned the commands).
\<close>

theorem C9_mixed_mode:
  "(is_range_order ord \<and> \<not> allow
      \<and> (\<exists>c \<in> set cmds. Module (Pkg c) \<noteq> None) \<and> (\<exists>c \<in> set cmds. Module (Pkg c) = None)
      \<longrightarrow> (\<exists>names. mixed_mode ord allow cmds = Some (MixedMode names)
             \<and> distinct names
             \<and> set names = {Path md | c md. c \<in> set cmds \<and> Module (Pkg c) = Some md}))
   \<and> (allow \<or> (\<forall>c \<in> set cmds. Module (Pkg c) \<noteq> None) \<or> (\<forall>c \<in> set cmds. Module (Pkg c) = None)
      \<longrightarrow> mixed_mode ord allow cmds = None)
   \<and> (os_MkdirAll (path_Join [tmpDir, ''src/bb.u-root.com/bb'']) s = (None, s1)
        \<and> NewPackages ext (Env opts) (CommandPaths opts) s1 = (Inr cmds, s2)
        \<and> distinct (map Name cmds)
        \<and> is_range_order ord \<and> \<not> AllowMixedMode opts
        \<and> (\<exists>c \<in> set cmds. Module (Pkg c) \<noteq> None) \<and> (\<exists>c \<in> set cmds. Module (Pkg c) = None)
      \<longrightarrow> (\<exists>names. build_tree ord ext opts tmpDir s = (Some (MixedMode names), s2)
             \<and> distinct names
             \<and> set names = {Path md | c md. c \<in> set cmds \<and> Module (Pkg c) = Some md}))"
proof (intro conjI impI)
  assume a: "is_range_order ord \<and> \<not> allow
      \<and> (\<exists>c \<in> set cmds. Module (Pkg c) \<noteq> None) \<and> (\<exists>c \<in> set cmds. Module (Pkg c) = None)"
  then have a1: "is_range_order ord" and a2: "\<not> allow"
    and a3: "\<exists>c \<in> set cmds. Module (Pkg c) \<noteq> None" and a4: "\<exists>c \<in> set cmds. Module (Pkg c) = None"
    by simp_all
  note n = mixed_mode_names [OF a1 a2 a3 a4]
  show "\<exists>names. mixed_mode ord allow cmds = Some (MixedMode names)
             \<and> distinct names
             \<and> set names = {Path md | c md. c \<in> set cmds \<and> Module (Pkg c) = Some md}"
    by (rule exI [of _ "listStrings ord (foldl modules_step [] cmds)"])
       (intro conjI, rule n(1), rule n(3), rule n(2))
next
  assume "allow \<or> (\<forall>c \<in> set cmds. Module (Pkg c) \<noteq> None) \<or> (\<forall>c \<in> set cmds. Module (Pkg c) = None)"
  then show "mixed_mode ord allow cmds = None"
    by (auto simp add: mixed_mode_unfold modules_nonempty)
next
  assume a: "os_MkdirAll (path_Join [tmpDir, ''src/bb.u-root.com/bb'']) s = (None, s1)
        \<and> NewPackages ext (Env opts) (CommandPaths opts) s1 = (Inr cmds, s2)
        \<and> distinct (map Name cmds)
        \<and> is_range_order ord \<and> \<not> AllowMixedMode opts
        \<and> (\<exists>c \<in> set cmds. Module (Pkg c) \<noteq> None) \<and> (\<exists>c \<in> set cmds. Module (Pkg c) = None)"
  then have mk: "os_MkdirAll (path_Join [tmpDir, ''src/bb.u-root.com/bb'']) s = (None, s1)"
    and np: "NewPackages ext (Env opts) (CommandPaths opts) s1 = (Inr cmds, s2)"
    and dn: "distinct (map Name cmds)"
    and a1: "is_range_order ord" and a2: "\<not> AllowMixedMode opts"
    and a3: "\<exists>c \<in> set cmds. Module (Pkg c) \<noteq> None" and a4: "\<exists>c \<in> set cmds. Module (Pkg c) = None"
    by simp_all
  from dn have cd: "checkDuplicate cmds = None"
    by (simp add: checkDuplicate_def checkDuplicate_loop_None)
  note n = mixed_mode_names [OF a1 a2 a3 a4]
  have bt: "build_tree ord ext opts tmpDir s
      = (Some (MixedMode (listStrings ord (foldl modules_step [] cmds))), s2)"
    using mk np cd n(1) by (rule build_tree_mixed_mode)
  show "\<exists>names. build_tree ord ext opts tmpDir s = (Some (MixedMode names), s2)
             \<and> distinct names
             \<and> set names = {Path md | c md. c \<in> set cmds \<and> Module (Pkg c) = Some md}"
    by (rule exI [of _ "listStrings ord (foldl modules_step [] cmds)"])
       (intro conjI, rule bt, rule n(3), rule n(2))
qed

text \<open>
  Claim C9 as stated has the build fail with the error of the mixed build whenever one
  command has a module and one has none.  With two such commands that are both named
  \<open>ls\<close>, the check of lines 356 to 367 would fail, but the build has returned the error
  of the duplicate name before (lines 351 to 354).
\<close>

theorem C9_mixed_mode_counterexample:
  "AllowMixedMode example_opts = False
   \<and> Module (Pkg example_ls_a) \<noteq> None
   \<and> Module (Pkg example_ls_plain) = None
   \<and> fst (BuildBusybox in_order (example_externals [example_ls_a, example_ls_plain])
            (Some example_opts) example_machine)
       = Some (DuplicateCommand ''ls'' ''example.com/a/cmd/ls'' ''plain/ls'')
   \<and> mixed_mode in_order False [example_ls_a, example_ls_plain]
       = Some (MixedMode [''example.com/a''])"
  by code_simp

theorem C9_mixed_mode_witness:
  "mixed_mode in_order False [example_ls_a, example_hello, example_cat_b]
     = Some (MixedMode [''example.com/a'', ''example.com/b/v2''])
   \<and> mixed_mode in_order True [example_ls_a, example_hello, example_cat_b] = None
   \<and> mixed_mode in_order False [example_ls_a, example_cat_b] = None
   \<and> mixed_mode in_order False [example_hello] = None
   \<and> fst (build_tree in_order (example_externals [example_ls_a, example_hello, example_cat_b])
            example_opts ''/gen'' example_machine)
       = Some (MixedMode [''example.com/a'', ''example.com/b/v2''])"
proof -
  let ?mixed = "[example_ls_a, example_hello, example_cat_b]"
  let ?ext = "example_externals ?mixed"
  let ?s1 = "snd (os_MkdirAll (path_Join [''/gen'', ''src/bb.u-root.com/bb'']) example_machine)"
  have ro: "is_range_order in_order"
    by (simp add: is_range_order_def in_order_def)
  have h1: "(\<exists>c \<in> set ?mixed. Module (Pkg c) \<noteq> None) \<and> (\<exists>c \<in> set ?mixed. Module (Pkg c) = None)"
    by (simp add: example_ls_a_def example_hello_def)
  have nallow: "\<not> False" by simp
  from C9_mixed_mode [where ord = in_order and allow = False and cmds = ?mixed, THEN conjunct1,
      rule_format, OF conjI [OF ro conjI [OF nallow h1]]]
  obtain names where n: "mixed_mode in_order False ?mixed = Some (MixedMode names)"
    by (elim exE conjE)
  have ev: "mixed_mode in_order False ?mixed = Some (MixedMode [''example.com/a'', ''example.com/b/v2''])"
    by code_simp
  have c2: "mixed_mode in_order True ?mixed = None"
    by (rule C9_mixed_mode [where ord = in_order and allow = True and cmds = ?mixed, THEN conjunct2,
        THEN conjunct1, rule_format]) simp
  have h3: "\<forall>c \<in> set [example_ls_a, example_cat_b]. Module (Pkg c) \<noteq> None"
    by (simp add: example_ls_a_def example_cat_b_def)
  have c3: "mixed_mode in_order False [example_ls_a, example_cat_b] = None"
    by (rule C9_mixed_mode [where ord = in_order and allow = False
        and cmds = "[example_ls_a, example_cat_b]", THEN conjunct2, THEN conjunct1, rule_format])
       (rule disjI2, rule disjI1, rule h3)
  have h4: "\<forall>c \<in> set [example_hello]. Module (Pkg c) = None"
    by (simp add: example_hello_def)
  have c4: "mixed_mode in_order False [example_hello] = None"
    by (rule C9_mixed_mode [where ord = in_order and allow = False and cmds = "[example_hello]",
        THEN conjunct2, THEN conjunct1, rule_format])
       (rule disjI2, rule disjI2, rule h4)
  have mk: "os_MkdirAll (path_Join [''/gen'', ''src/bb.u-root.com/bb'']) example_machine = (None, ?s1)"
    by code_simp
  have np: "NewPackages ?ext (Env example_opts) (CommandPaths example_opts) ?s1 = (Inr ?mixed, ?s1)"
    by (simp add: example_externals_def)
  have dn: "distinct (map Name ?mixed)"
    by (simp add: example_ls_a_def example_hello_def example_cat_b_def)
  have na: "\<not> AllowMixedMode example_opts"
    by (simp add: example_opts_def)
  from C9_mixed_mode [where ord = in_order and cmds = ?mixed, THEN conjunct2, THEN conjunct2,
      rule_format, OF conjI [OF mk conjI [OF np conjI [OF dn conjI [OF ro conjI [OF na h1]]]]]]
  obtain names' where c5: "build_tree in_order ?ext example_opts ''/gen'' example_machine
     = (Some (MixedMode names'), ?s1)"
    by (elim exE conjE)
  have ev5: "fst (build_tree in_order ?ext example_opts ''/gen'' example_machine)
     = Some (MixedMode [''example.com/a'', ''example.com/b/v2''])"
    by code_simp
  from c5 ev5 have c5': "build_tree in_order ?ext example_opts ''/gen'' example_machine
     = (Some (MixedMode [''example.com/a'', ''example.com/b/v2'']), ?s1)"
    by simp
  from n ev have c1: "names = [''example.com/a'', ''example.com/b/v2'']"
    by simp
  from n c1 c2 c3 c4 c5' show ?thesis by simp
qed

end
